theory Spec2Isabelle
  imports Main "HOL-Library.Word"
begin

unbundle bit_operations_syntax

section \<open>Values of the driver\<close>

text \<open>
  The driver of \<^verbatim>\<open>src/iridium-sbd.js\<close> is a single object \<^verbatim>\<open>iridium\<close> together with the
  module variables \<^verbatim>\<open>df\<close>, \<^verbatim>\<open>er\<close>, \<^verbatim>\<open>tf\<close>, \<^verbatim>\<open>kr\<close> and \<^verbatim>\<open>serialEmitter\<close>. A Node
  \<^verbatim>\<open>Buffer\<close> is a list of bytes; a JavaScript string that came off the serial line through
  \<^verbatim>\<open>toString('binary')\<close> is a list of 8-bit characters.
\<close>

type_synonym byte = "8 word"

definition LF :: char where
  "LF = CHR 0x0A"

definition CR :: char where
  "CR = CHR 0x0D"

definition latin1 :: "byte list \<Rightarrow> string" where
  "latin1 bs = map (\<lambda>b. char_of (unat b)) bs"

text \<open>The bytes of an ASCII text.\<close>

definition ascii :: "string \<Rightarrow> byte list" where
  "ascii t = map (\<lambda>c. of_nat (of_char c)) t"

section \<open>The line framer: \<^verbatim>\<open>String.prototype.split("\n")\<close>\<close>

text \<open>
  \<^verbatim>\<open>s.split("\n")\<close> always returns at least one part; the last part is what follows the last
  line feed (the empty string when \<^verbatim>\<open>s\<close> ends in one).
\<close>

fun split_lf :: "string \<Rightarrow> string list" where
  "split_lf [] = [[]]"
| "split_lf (c # cs) =
     (if c = LF then [] # split_lf cs
      else (case split_lf cs of p # ps \<Rightarrow> (c # p) # ps | [] \<Rightarrow> [[c]]))"

section \<open>The checksum loop of \<^verbatim>\<open>sendBinaryMessage\<close>\<close>

text \<open>
  Lines 172 to 180: \<^verbatim>\<open>ob\<close> is the payload followed by two bytes. \<^verbatim>\<open>sum\<close> is a JavaScript
  number that adds up the payload bytes (exactly, below \<open>2 ^ 53\<close>); \<^verbatim>\<open>sum & 0xff\<close> and
  \<^verbatim>\<open>sum >>= 8\<close> first convert it to a signed 32-bit integer, the shift is arithmetic, and
  storing into the buffer keeps the low eight bits.
\<close>

definition to_int32 :: "int \<Rightarrow> 32 word" where
  "to_int32 n = word_of_int n"

definition byte_sum :: "byte list \<Rightarrow> int" where
  "byte_sum buffer = foldl (\<lambda>sum b. sum + uint b) 0 buffer"

definition checksum_frame :: "byte list \<Rightarrow> byte list" where
  "checksum_frame buffer =
     (let sum = byte_sum buffer;
          lo = to_int32 sum AND 0xff;
          sum' = signed_drop_bit 8 (to_int32 sum);
          hi = sum' AND 0xff
      in buffer @ [ucast hi, ucast lo])"


section \<open>Regular expressions\<close>

text \<open>
  The patterns the driver hands to \<^verbatim>\<open>RegExp.prototype.test\<close>: a literal anchored at the start
  (\<^verbatim>\<open>/^OK\r/\<close>, \<^verbatim>\<open>/^SBDRING/\<close>, \<^verbatim>\<open>/^\+AREG/\<close>), a literal anywhere (\<^verbatim>\<open>/READY/\<close>,
  \<^verbatim>\<open>/ERROR/\<close>, \<^verbatim>\<open>/\+SBDIX/\<close>), \<^verbatim>\<open>/.*/\<close>, which matches every string, and
  \<^verbatim>\<open>/\+CIEV:0,[^0]/\<close>.
\<close>

datatype regexp = Starts_with string | Includes string | Anything | Signal_bar

fun starts_with :: "string \<Rightarrow> string \<Rightarrow> bool" where
  "starts_with [] s = True"
| "starts_with (p # ps) [] = False"
| "starts_with (p # ps) (c # cs) = (p = c \<and> starts_with ps cs)"

fun contains :: "string \<Rightarrow> string \<Rightarrow> bool" where
  "contains p [] = starts_with p []"
| "contains p (c # cs) = (starts_with p (c # cs) \<or> contains p cs)"

fun signal_bar :: "string \<Rightarrow> bool" where
  "signal_bar [] = False"
| "signal_bar (c # cs) =
     ((starts_with ''+CIEV:0,'' (c # cs) \<and>
       (case drop 8 (c # cs) of [] \<Rightarrow> False | d # r \<Rightarrow> d \<noteq> CHR ''0''))
      \<or> signal_bar cs)"

fun test :: "regexp \<Rightarrow> string \<Rightarrow> bool" where
  "test (Starts_with p) s = starts_with p s"
| "test (Includes p) s = contains p s"
| "test Anything s = True"
| "test Signal_bar s = signal_bar s"

definition OK :: regexp where
  "OK = Starts_with (''OK'' @ [CR])"

text \<open>\<^verbatim>\<open>ALL\<close> of the source (the name is taken in HOL).\<close>

definition ALL_re :: regexp where
  "ALL_re = Anything"

text \<open>
  The patterns the driver hands to \<^verbatim>\<open>String.prototype.match\<close> are sequences of literals,
  \<^verbatim>\<open>(\d+)\<close>, \<^verbatim>\<open>\s*\<close> and \<^verbatim>\<open>(.*)\<close>. In each of them a \<^verbatim>\<open>(\d+)\<close> is followed by a
  literal that starts with a non-digit (or ends the pattern), \<^verbatim>\<open>\s*\<close> is followed by
  \<^verbatim>\<open>(.*)\<close>, and \<^verbatim>\<open>(.*)\<close> ends the pattern, so the greedy match at a position is the only
  one and no backtracking inside a position is needed. \<open>match_here\<close> returns the captured
  groups in order (group 1 first); \<open>search\<close> tries the positions from left to right.
\<close>

datatype tok = Lit string | Digits | Spaces | Rest

definition is_digit :: "char \<Rightarrow> bool" where
  "is_digit c = (c \<in> set ''0123456789'')"

definition is_space :: "char \<Rightarrow> bool" where
  "is_space c = (of_char c \<in> set [9, 10, 11, 12, 13, 32, 160 :: nat])"

definition is_dot :: "char \<Rightarrow> bool" where
  "is_dot c = (c \<noteq> LF \<and> c \<noteq> CR)"

fun match_here :: "tok list \<Rightarrow> string \<Rightarrow> string list option" where
  "match_here [] s = Some []"
| "match_here (Lit l # ts) s =
     (if starts_with l s then match_here ts (drop (length l) s) else None)"
| "match_here (Digits # ts) s =
     (if takeWhile is_digit s = [] then None
      else map_option (Cons (takeWhile is_digit s)) (match_here ts (dropWhile is_digit s)))"
| "match_here (Spaces # ts) s = match_here ts (dropWhile is_space s)"
| "match_here (Rest # ts) s =
     map_option (Cons (takeWhile is_dot s)) (match_here ts (dropWhile is_dot s))"

fun search :: "tok list \<Rightarrow> string \<Rightarrow> string list option" where
  "search ts [] = match_here ts []"
| "search ts (c # cs) =
     (case match_here ts (c # cs) of Some g \<Rightarrow> Some g | None \<Rightarrow> search ts cs)"

text \<open>\<^verbatim>\<open>/^\+AREG:(\d+),(\d+)/\<close>, anchored, so matched with \<open>match_here\<close>.\<close>

definition areg_pattern :: "tok list" where
  "areg_pattern = [Lit ''+AREG:'', Digits, Lit '','', Digits]"

text \<open>\<^verbatim>\<open>/\+SBDIX: (\d+), (\d+), (\d+), (\d+), (\d+), (\d+)/\<close>\<close>

definition sbdix_pattern :: "tok list" where
  "sbdix_pattern = [Lit ''+SBDIX: '', Digits, Lit '', '', Digits, Lit '', '', Digits,
     Lit '', '', Digits, Lit '', '', Digits, Lit '', '', Digits]"

text \<open>\<^verbatim>\<open>/CCLK:(\d+)\/(\d+)\/(\d+),(\d+):(\d+):(\d+)/\<close>\<close>

definition cclk_pattern :: "tok list" where
  "cclk_pattern = [Lit ''CCLK:'', Digits, Lit ''/'', Digits, Lit ''/'', Digits,
     Lit '','', Digits, Lit '':'', Digits, Lit '':'', Digits]"

text \<open>\<^verbatim>\<open>/-MSSTM:\s*(.*)/\<close> and \<^verbatim>\<open>/CSQ:\s*(.*)/\<close>\<close>

definition msstm_pattern :: "tok list" where
  "msstm_pattern = [Lit ''-MSSTM:'', Spaces, Rest]"

definition csq_pattern :: "tok list" where
  "csq_pattern = [Lit ''CSQ:'', Spaces, Rest]"

text \<open>
  A captured \<^verbatim>\<open>(\d+)\<close> group is a string of decimal digits. The source compares such groups
  with the numbers 0, 1, 4, 18 and 32, which converts the string with \<^verbatim>\<open>ToNumber\<close>; for
  these comparisons the conversion agrees with the decimal value of the digits (a value too
  large for a double is rounded to one that is still larger than 32).
\<close>

definition js_number :: "string \<Rightarrow> nat" where
  "js_number ds = foldl (\<lambda>n c. 10 * n + (of_char c - 48)) 0 ds"

section \<open>Callbacks, timers and effects\<close>

datatype payload = Line string | Blob "byte list"

datatype message = Buffer "byte list" | Text string

datatype command = Cmd string | Raw "byte list"

text \<open>The first argument of a Node-style callback, as far as the driver produces it.\<close>

datatype errval =
    E_undefined
  | E_null
  | E_false
  | E_regexp regexp
  | E_string string
  | E_object string

text \<open>
  The second argument. What \<^verbatim>\<open>parseInt\<close> and \<^verbatim>\<open>new Date\<close> return is kept as the call that
  produced it.
\<close>

datatype resval =
    R_undefined
  | R_string string
  | R_buffer "byte list"
  | R_parseInt string
  | R_date_utc "string list"
  | R_date_msstm string

fun truthy :: "errval \<Rightarrow> bool" where
  "truthy E_undefined = False"
| "truthy E_null = False"
| "truthy E_false = False"
| "truthy (E_string s) = (s \<noteq> [])"
| "truthy (E_regexp r) = True"
| "truthy (E_object e) = True"

text \<open>
  The function values the driver stores in \<^verbatim>\<open>df\<close> or passes on as \<^verbatim>\<open>callback\<close>, one
  constructor for each closure of the source with the variables it captures.
  \<open>Undefined_fn\<close> is a callback argument that was left out; \<open>User n\<close> is a function of the
  caller, which the model records as invoked and does not look into.
\<close>

datatype cont =
    Undefined_fn
  | User nat
  | Binary_ready "byte list" cont       \<comment> \<open>line 183, after \<^verbatim>\<open>AT+SBDWB\<close>\<close>
  | Binary_written cont                 \<comment> \<open>line 194\<close>
  | Text_written cont "int option"      \<comment> \<open>line 228, after \<^verbatim>\<open>AT+SBDWT\<close> or \<^verbatim>\<open>AT+SBDD0\<close>\<close>
  | Network_up cont                     \<comment> \<open>lines 204 and 238\<close>
  | Session_start cont                  \<comment> \<open>lines 214 and 247\<close>
  | Clear_then errval cont              \<comment> \<open>\<^verbatim>\<open>function () { callback(err); }\<close>\<close>
  | Session_result cont                 \<comment> \<open>line 486, after \<^verbatim>\<open>AT+SBDIXA\<close>\<close>
  | Finish cont resval                  \<comment> \<open>\<^verbatim>\<open>function (err) { callback(err, momsn); }\<close>\<close>
  | Binary_read string cont             \<comment> \<open>line 443, after \<^verbatim>\<open>AT+SBDRB\<close>\<close>
  | After_read cont string              \<comment> \<open>line 541\<close>
  | Mailbox_result message cont         \<comment> \<open>line 136\<close>
  | System_time cont                    \<comment> \<open>line 365\<close>
  | Network_time cont                   \<comment> \<open>line 379\<close>
  | Signal_quality cont                 \<comment> \<open>line 404\<close>

text \<open>What a \<^verbatim>\<open>setTimeout\<close> other than the command timer will run.\<close>

datatype task =
    Retry message cont                  \<comment> \<open>line 151: \<^verbatim>\<open>iridium.mailboxSend(buffer, callback)\<close>\<close>
  | Mailbox_check                       \<comment> \<open>line 141: \<^verbatim>\<open>iridium.sendMessage("")\<close>\<close>
  | Flush_binary                        \<comment> \<open>line 256\<close>

datatype part =
    P_str string
  | P_nat nat
  | P_undefined
  | P_data payload
  | P_err errval
  | P_res resval
  | P_cmd command
  | P_hex "byte list"

text \<open>
  What the driver does to the outside: writes to the serial port, events on
  \<^verbatim>\<open>iridiumEvents\<close>, calls of the caller's functions, timers, and the request to
  \<^verbatim>\<open>zlib.deflateRaw\<close>. A \<open>Debug\<close> event carries the pieces its message is concatenated
  from.
\<close>

datatype action =
    Write_string string
  | Write_bytes "byte list"
  | Debug "part list"
  | Emit_ringalert
  | Emit_newmessage "byte list" string
  | Invoke nat errval resval
  | Set_timeout nat task
  | Deflate_raw "byte list"

text \<open>
  An uncaught exception ends the handler that raised it. \<open>Not_modelled\<close> marks the two places
  where the source decodes a binary buffer as UTF-8 text, which this model does not follow.
\<close>

datatype abort = TypeError | ReferenceError | RangeError | Not_modelled

section \<open>State\<close>

datatype counter = C_undefined | C_NaN | C_num nat

text \<open>The handle in \<^verbatim>\<open>tf\<close>: a timer still pending, or one that was cleared or has fired.\<close>

datatype timer = Armed command int | Spent

text \<open>
  The fields of \<^verbatim>\<open>iridium.globals\<close> that the functions below read. \<^verbatim>\<open>debug\<close> is only tested
  for truth; the timeouts are numbers of milliseconds, \<^verbatim>\<open>maxAttempts\<close> is a count, and
  \<^verbatim>\<open>maxWait\<close> is absent from the object literal.
\<close>

record globals =
  debug :: bool
  defaultTimeout :: int
  simpleTimeout :: int
  timeoutForever :: int
  maxAttempts :: nat
  maxWait :: "int option"

record binary_ctx =
  mode :: bool
  bin_buffer :: "byte list"
  bufferCounter :: nat

text \<open>
  The object \<^verbatim>\<open>iridium\<close> and the module variables. \<^verbatim>\<open>er\<close> and \<^verbatim>\<open>kr\<close> are \<open>None\<close> while
  they hold \<^verbatim>\<open>undefined\<close> or \<^verbatim>\<open>false\<close>. \<^verbatim>\<open>pending\<close> is assigned the digit string
  \<^verbatim>\<open>mtqueued\<close> at line 459; the state keeps its numeric value, which is all that
  \<^verbatim>\<open>pending > 0\<close> and \<^verbatim>\<open>pending++\<close> look at. Counts are natural numbers here; the
  numbers of the source are exact for counts below \<open>2 ^ 53\<close>. \<^verbatim>\<open>c_attempt\<close> is not in the object literal:
  it is \<^verbatim>\<open>undefined\<close> until line 118 sets it, and \<^verbatim>\<open>undefined++\<close> is \<^verbatim>\<open>NaN\<close>.
  \<open>serialEmitter\<close> tells whether the variable of that name has been assigned.
\<close>

record iridium =
  buffer :: string
  data :: string
  messagePending :: nat
  binary :: binary_ctx
  lock :: nat
  pending :: nat
  c_attempt :: counter
  globals :: globals
  er :: "regexp option"
  kr :: "regexp option"
  df :: "cont option"
  tf :: "timer option"
  serialEmitter :: bool

definition bufferSize :: nat where
  "bufferSize = 1024"

text \<open>The object literal of lines 30 to 50, before \<^verbatim>\<open>open\<close> and before any command.\<close>

definition initial :: iridium where
  "initial = \<lparr>buffer = [], data = [], messagePending = 0,
     binary = \<lparr>mode = False, bin_buffer = replicate bufferSize 0, bufferCounter = 0\<rparr>,
     lock = 0, pending = 0, c_attempt = C_undefined,
     globals = \<lparr>debug = False, defaultTimeout = 40 * 1000, simpleTimeout = 2000,
       timeoutForever = - 1, maxAttempts = 5, maxWait = None\<rparr>,
     er = None, kr = None, df = None, tf = None, serialEmitter = False\<rparr>"

type_synonym outcome = "iridium \<times> action list \<times> abort option"

definition ret :: "iridium \<Rightarrow> outcome" where
  "ret s = (s, [], None)"

definition throw :: "abort \<Rightarrow> iridium \<Rightarrow> outcome" where
  "throw e s = (s, [], Some e)"

definition emit :: "action list \<Rightarrow> outcome \<Rightarrow> outcome" where
  "emit as out = (case out of (s, bs, x) \<Rightarrow> (s, as @ bs, x))"

definition and_then :: "outcome \<Rightarrow> (iridium \<Rightarrow> outcome) \<Rightarrow> outcome" where
  "and_then out f =
     (case out of (s, as, x) \<Rightarrow> (case x of None \<Rightarrow> emit as (f s) | Some e \<Rightarrow> (s, as, Some e)))"

definition log :: "part list \<Rightarrow> iridium \<Rightarrow> action list" where
  "log message s = (if debug (globals s) then [Debug message] else [])"


section \<open>The command engine: \<^verbatim>\<open>AT\<close>\<close>

text \<open>
  \<^verbatim>\<open>if (tf) clearTimeout(tf)\<close>: the variable keeps its handle, the timer no longer runs.
  The \<^verbatim>\<open>delete tf\<close>, \<^verbatim>\<open>delete(df)\<close> and \<^verbatim>\<open>delete(er)\<close> that follow in the source are applied
  to variables declared with \<^verbatim>\<open>let\<close>; in non-strict code \<^verbatim>\<open>delete\<close> of such a binding
  returns \<^verbatim>\<open>false\<close> and leaves the variable as it is, so they do not appear below.
\<close>

definition clearTimeout :: "timer option \<Rightarrow> timer option" where
  "clearTimeout t = (case t of None \<Rightarrow> None | Some h \<Rightarrow> Some Spent)"

text \<open>
  Lines 570 to 592. \<open>timeout\<close> is \<open>None\<close> when the argument is left out;
  \<^verbatim>\<open>!timeout\<close> holds for a missing argument and for 0. The serial port is open.
\<close>

definition AT :: "command \<Rightarrow> regexp option \<Rightarrow> regexp option \<Rightarrow> cont \<Rightarrow> int option
    \<Rightarrow> iridium \<Rightarrow> outcome" where
  "AT command endregexp keepregexp datafunction timeout s =
     (let s1 = s\<lparr>er := endregexp, kr := keepregexp\<rparr>;
          s2 = s1\<lparr>tf := clearTimeout (tf s1)\<rparr>;
          s3 = s2\<lparr>df := Some datafunction\<rparr>;
          timeout' = (case timeout of None \<Rightarrow> defaultTimeout (globals s3)
                      | Some t \<Rightarrow> if t = 0 then defaultTimeout (globals s3) else t);
          s4 = (if timeout' > 0 then s3\<lparr>tf := Some (Armed command timeout')\<rparr> else s3)
      in (case command of
            Raw bytes \<Rightarrow> (s4, log [P_str ''[BINARY] > '', P_hex bytes] s4 @ [Write_bytes bytes], None)
          | Cmd text \<Rightarrow> (s4, log [P_str ''> '', P_str text] s4 @ [Write_string (text @ [CR])], None)))"

definition ATS :: "command \<Rightarrow> regexp option \<Rightarrow> regexp option \<Rightarrow> cont \<Rightarrow> int option
    \<Rightarrow> iridium \<Rightarrow> outcome" where
  "ATS command endregexp keepregexp callback timeout s =
     AT command endregexp keepregexp callback timeout s"

text \<open>The function given to \<^verbatim>\<open>setTimeout\<close> at line 581, run when the timer in \<^verbatim>\<open>tf\<close> expires.\<close>

definition command_timer :: "iridium \<Rightarrow> outcome" where
  "command_timer s =
     (case tf s of
        Some (Armed command t) \<Rightarrow>
          (s\<lparr>tf := Some Spent\<rparr>,
           log [P_str ''Sending a timeout event for command '', P_cmd command] s, None)
      | Some Spent \<Rightarrow> ret s
      | None \<Rightarrow> ret s)"

section \<open>Modem commands\<close>

definition truthy_num :: "int option \<Rightarrow> bool" where
  "truthy_num n = (case n of None \<Rightarrow> False | Some k \<Rightarrow> k \<noteq> 0)"

definition waitForNetwork :: "cont \<Rightarrow> int option \<Rightarrow> iridium \<Rightarrow> outcome" where
  "waitForNetwork callback maxWait_arg s =
     ATS (Cmd ''AT+CIER=1,1,0'') (Some Signal_bar) (Some ALL_re) callback
       (if truthy_num (maxWait (globals s)) then maxWait (globals s)
        else Some (timeoutForever (globals s))) s"

definition disableSignalMonitoring :: "cont \<Rightarrow> iridium \<Rightarrow> outcome" where
  "disableSignalMonitoring callback s =
     ATS (Cmd ''AT+CIER=0,0,0'') (Some OK) (Some ALL_re) callback
       (Some (simpleTimeout (globals s))) s"

definition clearMOBuffers :: "cont \<Rightarrow> iridium \<Rightarrow> outcome" where
  "clearMOBuffers callback s =
     ATS (Cmd ''AT+SBDD0'') (Some OK) (Some ALL_re) callback (Some (simpleTimeout (globals s))) s"

definition clearMTBuffers :: "cont \<Rightarrow> iridium \<Rightarrow> outcome" where
  "clearMTBuffers callback s =
     ATS (Cmd ''AT+SBDD1'') (Some OK) (Some ALL_re) callback (Some (simpleTimeout (globals s))) s"

definition enableBinaryMode :: "nat \<Rightarrow> iridium \<Rightarrow> outcome" where
  "enableBinaryMode bufferTimeout s =
     (s\<lparr>binary := (binary s)\<lparr>mode := True\<rparr>\<rparr>, [Set_timeout bufferTimeout Flush_binary], None)"

definition readBinaryMessage :: "string \<Rightarrow> cont \<Rightarrow> iridium \<Rightarrow> outcome" where
  "readBinaryMessage mtqueued callback s =
     and_then (enableBinaryMode 1000 s)
       (\<lambda>s'. AT (Cmd ''AT+SBDRB'') None None (Binary_read mtqueued callback)
                (Some (simpleTimeout (globals s'))) s')"

definition initiateSession :: "cont \<Rightarrow> iridium \<Rightarrow> outcome" where
  "initiateSession callback s =
     AT (Cmd ''AT+SBDIXA'') (Some OK) (Some (Includes ''+SBDIX'')) (Session_result callback) None s"

definition finishSession :: "cont \<Rightarrow> string \<Rightarrow> iridium \<Rightarrow> outcome" where
  "finishSession callback momsn s = clearMOBuffers (Finish callback (R_string momsn)) s"

definition getSystemTime :: "cont \<Rightarrow> iridium \<Rightarrow> outcome" where
  "getSystemTime callback s =
     AT (Cmd ''AT+CCLK?'') (Some OK) (Some ALL_re) (System_time callback) None s"

definition getNetworkTime :: "cont \<Rightarrow> iridium \<Rightarrow> outcome" where
  "getNetworkTime callback s =
     AT (Cmd ''AT-MSSTM'') (Some OK) (Some ALL_re) (Network_time callback) None s"

definition getSignalQuality :: "cont \<Rightarrow> iridium \<Rightarrow> outcome" where
  "getSignalQuality callback s =
     AT (Cmd ''AT+CSQ'') (Some OK) (Some ALL_re) (Signal_quality callback) None s"

section \<open>The closures\<close>

text \<open>
  \<^verbatim>\<open>ib.readUInt16BE(0)\<close>, \<^verbatim>\<open>Buffer.alloc(messageLength)\<close> and
  \<^verbatim>\<open>ib.copy(messageBuffer, 0, 2, messageLength + 2)\<close> of lines 453 to 455: the copy stops at
  the end of \<^verbatim>\<open>ib\<close> and the rest of \<^verbatim>\<open>messageBuffer\<close> stays zero.
\<close>

definition readUInt16BE :: "byte list \<Rightarrow> nat" where
  "readUInt16BE ib = unat (ib ! 0) * 256 + unat (ib ! 1)"

definition copy_message :: "byte list \<Rightarrow> nat \<Rightarrow> byte list" where
  "copy_message ib messageLength =
     (let copied = take messageLength (drop 2 ib)
      in copied @ replicate (messageLength - length copied) 0)"

fun truthy_message :: "message \<Rightarrow> bool" where
  "truthy_message (Buffer b) = True"
| "truthy_message (Text t) = (t \<noteq> [])"

text \<open>
  \<open>apply_cont k err res s\<close> calls the function \<open>k\<close> with the two arguments in state \<open>s\<close>.
  In the branch of line 552 the name \<^verbatim>\<open>momsn\<close> is not in scope (its \<^verbatim>\<open>const\<close> belongs to the
  block of the other branch), so evaluating the call raises a \<^verbatim>\<open>ReferenceError\<close>.
\<close>

fun apply_cont :: "cont \<Rightarrow> errval \<Rightarrow> resval \<Rightarrow> iridium \<Rightarrow> outcome" where
  "apply_cont Undefined_fn err res s = throw TypeError s"
| "apply_cont (User n) err res s = (s, [Invoke n err res], None)"
| "apply_cont (Binary_ready ob callback) err text s =
     (if truthy err
      then clearMOBuffers (Clear_then err callback) (s\<lparr>messagePending := 0\<rparr>)
      else ATS (Raw ob) (Some OK) (Some ALL_re) (Binary_written callback) None s)"
| "apply_cont (Binary_written callback) berr res s =
     (if truthy berr
      then clearMOBuffers (Clear_then berr callback) (s\<lparr>messagePending := 0\<rparr>)
      else waitForNetwork (Network_up callback) (maxWait (globals s)) (s\<lparr>messagePending := 1\<rparr>))"
| "apply_cont (Text_written callback maxWait_arg) err text s =
     (if truthy err
      then clearMOBuffers (Clear_then err callback) (s\<lparr>messagePending := 0\<rparr>)
      else waitForNetwork (Network_up callback) maxWait_arg (s\<lparr>messagePending := 1\<rparr>))"
| "apply_cont (Network_up callback) xerr res s =
     (if truthy xerr
      then clearMOBuffers (Clear_then xerr callback) (s\<lparr>messagePending := 0\<rparr>)
      else disableSignalMonitoring (Session_start callback) (s\<lparr>messagePending := 2\<rparr>))"
| "apply_cont (Session_start callback) xcallback res s = initiateSession callback s"
| "apply_cont (Clear_then err callback) e res s = apply_cont callback err R_undefined s"
| "apply_cont (Session_result callback) err text s =
     (if truthy err
      then clearMOBuffers (Clear_then err callback) (s\<lparr>messagePending := 1\<rparr>)
      else (case text of
        R_string t \<Rightarrow>
          (case search sbdix_pattern t of
             Some m \<Rightarrow>
               (let status = m ! 0; momsn = m ! 1; mtstatus = m ! 2;
                    mtmsn = m ! 3; mtlen = m ! 4; mtqueued = m ! 5
                in if js_number status \<le> 4 then
                     (let s1 = s\<lparr>messagePending := 0\<rparr>;
                          l = log [P_str ''MO message transferred successfully''] s
                            @ (if js_number mtqueued > 0
                               then log [P_str ''There are still '', P_str mtqueued,
                                         P_str '' messages waiting!''] s
                               else [])
                      in if js_number mtstatus = 0 then
                           emit (l @ log [P_str ''No MT messages are pending''] s)
                             (finishSession callback momsn s1)
                         else if js_number mtstatus = 1 then
                           emit (l @ log [P_str ''A MT message has been transferred, use AT+SBDRT to read it''] s)
                             (readBinaryMessage mtqueued (After_read callback momsn) s1)
                         else
                           emit (l @ log [P_str ''Error determining MT status: '', P_str mtstatus] s)
                             (finishSession callback momsn s1))
                   else if js_number status = 18 then
                     emit (log [P_str ''MO message failed, radio failure''] s)
                       (clearMOBuffers (Clear_then (E_string ''radio failure'') callback)
                          (s\<lparr>messagePending := 1\<rparr>))
                   else if js_number status = 32 then
                     emit (log [P_str ''MO message failed, network failure''] s)
                       (clearMOBuffers (Clear_then (E_string ''network failure'') callback)
                          (s\<lparr>messagePending := 1\<rparr>))
                   else
                     emit (log [P_str ''MO message failed, error '', P_str status] s)
                       (clearMOBuffers (Clear_then (E_string ''unknown failure'') callback)
                          (s\<lparr>messagePending := 1\<rparr>)))
           | None \<Rightarrow> (s, log [P_str ''Error parsing SBDIX!''] s, Some ReferenceError))
      | R_undefined \<Rightarrow> throw TypeError s
      | R_buffer b \<Rightarrow> throw TypeError s
      | R_parseInt v \<Rightarrow> throw TypeError s
      | R_date_utc v \<Rightarrow> throw TypeError s
      | R_date_msstm v \<Rightarrow> throw TypeError s))"
| "apply_cont (Finish callback momsn) err res s = apply_cont callback err momsn s"
| "apply_cont (Binary_read mtqueued callback) err buffer_arg s =
     (if truthy err then clearMTBuffers (Clear_then err callback) s
      else (case buffer_arg of
        R_buffer ib \<Rightarrow>
          (if length ib < 2 then throw RangeError s
           else (let messageLength = readUInt16BE ib;
                     messageBuffer = copy_message ib messageLength;
                     s1 = s\<lparr>binary := (binary s)\<lparr>mode := False\<rparr>\<rparr>;
                     s2 = s1\<lparr>pending := js_number mtqueued\<rparr>
                 in emit (log [P_str ''Received message is '', P_hex messageBuffer] s
                          @ [Emit_newmessage messageBuffer mtqueued])
                      (clearMTBuffers callback s2)))
      | R_undefined \<Rightarrow> throw TypeError s
      | R_string t \<Rightarrow> throw TypeError s
      | R_parseInt v \<Rightarrow> throw TypeError s
      | R_date_utc v \<Rightarrow> throw TypeError s
      | R_date_msstm v \<Rightarrow> throw TypeError s))"
| "apply_cont (After_read callback momsn) err res s =
     clearMOBuffers (Finish callback (R_string momsn)) s"
| "apply_cont (Mailbox_result buffer_arg callback) err momsn s =
     (if err = E_null \<or> err = E_undefined then
        (let l = (if truthy_message buffer_arg
                  then log [P_str ''[SBD] Binary message sent successfully, assigned MOMSN '',
                            P_res momsn] s
                  else [])
         in if pending s > 0
            then emit (l @ [Set_timeout 1000 Mailbox_check]) (apply_cont callback E_false momsn s)
            else emit l (apply_cont callback E_false momsn (s\<lparr>lock := 0\<rparr>)))
      else (s, log [P_str ''[SBD] Iridium returned error '', P_err err,
                    P_str '', will retry in 20s''] s
               @ [Set_timeout 20000 (Retry buffer_arg callback)], None))"
| "apply_cont (System_time callback) err result s =
     (if truthy err then apply_cont callback err R_undefined s
      else (case result of
        R_string r \<Rightarrow>
          (case search cclk_pattern r of
             None \<Rightarrow> apply_cont callback (E_string ''UNKNOWN_TIME'') R_undefined s
           | Some m \<Rightarrow> apply_cont callback E_null (R_date_utc m) s)
      | R_undefined \<Rightarrow> throw TypeError s
      | R_buffer b \<Rightarrow> throw TypeError s
      | R_parseInt v \<Rightarrow> throw TypeError s
      | R_date_utc v \<Rightarrow> throw TypeError s
      | R_date_msstm v \<Rightarrow> throw TypeError s))"
| "apply_cont (Network_time callback) err result s =
     (if truthy err then apply_cont callback err R_undefined s
      else (case result of
        R_string r \<Rightarrow>
          (case search msstm_pattern r of
             None \<Rightarrow> apply_cont callback (E_string ''UNKNOWN_TIME'') R_undefined s
           | Some m \<Rightarrow> apply_cont callback E_null (R_date_msstm (m ! 0)) s)
      | R_undefined \<Rightarrow> throw TypeError s
      | R_buffer b \<Rightarrow> throw TypeError s
      | R_parseInt v \<Rightarrow> throw TypeError s
      | R_date_utc v \<Rightarrow> throw TypeError s
      | R_date_msstm v \<Rightarrow> throw TypeError s))"
| "apply_cont (Signal_quality callback) err result s =
     (if truthy err then apply_cont callback err R_undefined s
      else (case result of
        R_string r \<Rightarrow>
          (case search csq_pattern r of
             None \<Rightarrow> apply_cont callback (E_string ''UNKNOWN_SIGNAL_QUALITY'') R_undefined s
           | Some m \<Rightarrow> apply_cont callback E_null (R_parseInt (m ! 0)) s)
      | R_undefined \<Rightarrow> throw TypeError s
      | R_buffer b \<Rightarrow> throw TypeError s
      | R_parseInt v \<Rightarrow> throw TypeError s
      | R_date_utc v \<Rightarrow> throw TypeError s
      | R_date_msstm v \<Rightarrow> throw TypeError s))"

text \<open>
  The wrapper stored in \<^verbatim>\<open>df\<close> (lines 575 to 579); calling \<^verbatim>\<open>df\<close> while it is undefined is a
  \<^verbatim>\<open>TypeError\<close>.
\<close>

definition call_df :: "errval \<Rightarrow> resval \<Rightarrow> iridium \<Rightarrow> outcome" where
  "call_df err text s =
     (case df s of
        None \<Rightarrow> throw TypeError s
      | Some datafunction \<Rightarrow> apply_cont datafunction err text (s\<lparr>tf := clearTimeout (tf s)\<rparr>))"


section \<open>The response router: the \<^verbatim>\<open>data\<close> handler of \<^verbatim>\<open>open\<close>\<close>

datatype handler = H_sbdring | H_areg

definition unsollicited :: "(regexp \<times> handler) list" where
  "unsollicited = [(Starts_with ''SBDRING'', H_sbdring), (Starts_with ''+AREG'', H_areg)]"

definition errors :: "regexp list" where
  "errors = [Includes ''ERROR'']"

definition sbdring :: "iridium \<Rightarrow> outcome" where
  "sbdring s = (s, [Emit_ringalert], None)"

text \<open>Lines 66 to 71; \<^verbatim>\<open>m[1]\<close> of a failed match is a \<^verbatim>\<open>TypeError\<close>.\<close>

definition areg :: "string \<Rightarrow> iridium \<Rightarrow> outcome" where
  "areg line s =
     (case match_here areg_pattern line of
        None \<Rightarrow> throw TypeError s
      | Some m \<Rightarrow>
          (s, log [P_str ''Registration result: '', P_str (m ! 0),
                   P_str '' with error '', P_str (m ! 1)] s, None))"

fun execute :: "handler \<Rightarrow> string \<Rightarrow> iridium \<Rightarrow> outcome" where
  "execute H_sbdring line s = sbdring s"
| "execute H_areg line s = areg line s"

fun res_of :: "payload \<Rightarrow> resval" where
  "res_of (Line l) = R_string l"
| "res_of (Blob b) = R_buffer b"

text \<open>
  Lines 306 to 341. The two loops return at the first pattern that matches. With an end
  pattern set, a binary blob would be converted to text for the pattern tests; that case is
  left out of the model.
\<close>

definition on_data :: "payload \<Rightarrow> iridium \<Rightarrow> outcome" where
  "on_data d s =
     emit (log [P_str ''< '', P_data d] s)
       (case er s of
          None \<Rightarrow> call_df E_null (res_of d) s
        | Some e \<Rightarrow>
            (case d of
               Blob b \<Rightarrow> throw Not_modelled s
             | Line l \<Rightarrow>
                 (case find (\<lambda>u. test (fst u) l) unsollicited of
                    Some u \<Rightarrow> execute (snd u) l s
                  | None \<Rightarrow>
                      (case find (\<lambda>p. test p l) errors of
                         Some p \<Rightarrow>
                           and_then (call_df (E_regexp p) (R_string (buffer s)) s)
                             (\<lambda>s'. ret (s'\<lparr>buffer := []\<rparr>))
                       | None \<Rightarrow>
                           (let s1 = (if (case kr s of None \<Rightarrow> True | Some k \<Rightarrow> test k l)
                                      then s\<lparr>buffer := buffer s @ l @ [LF]\<rparr> else s)
                            in if test e l
                               then and_then (call_df E_null (R_string (buffer s1)) s1)
                                      (\<lambda>s'. ret (s'\<lparr>buffer := []\<rparr>))
                               else ret s1)))))"

section \<open>The line framer: \<^verbatim>\<open>readSBD\<close>\<close>

text \<open>
  \<^verbatim>\<open>source.copy(target, targetStart)\<close> writes as much of \<open>source\<close> as fits and nothing when
  \<open>targetStart\<close> is at or past the end of \<open>target\<close>.
\<close>

definition copy_into :: "byte list \<Rightarrow> byte list \<Rightarrow> nat \<Rightarrow> byte list" where
  "copy_into source target targetStart =
     (let n = min (length source) (length target - targetStart)
      in take targetStart target @ take n source @ drop (targetStart + n) target)"

text \<open>
  Lines 265 to 282 in two steps. \<open>frame\<close> is what \<^verbatim>\<open>readSBD\<close> does to its own state and
  which \<^verbatim>\<open>data\<close> events it emits; \<open>readSBD\<close> then runs the \<^verbatim>\<open>data\<close> handler on each of
  them in order, as \<^verbatim>\<open>emitter.emit\<close> does. The handler never touches \<^verbatim>\<open>iridium.data\<close>, which
  is assigned before the first event.
\<close>

definition frame :: "byte list \<Rightarrow> iridium \<Rightarrow> iridium \<times> payload list" where
  "frame chunk s =
     (if mode (binary s) then
        (s\<lparr>serialEmitter := True,
           binary := (binary s)\<lparr>
             bin_buffer := copy_into chunk (bin_buffer (binary s)) (bufferCounter (binary s)),
             bufferCounter := bufferCounter (binary s) + length chunk\<rparr>\<rparr>, [])
      else
        (let parts = split_lf (data s @ latin1 chunk)
         in (s\<lparr>serialEmitter := True, data := last parts\<rparr>, map Line (butlast parts))))"

fun deliver :: "payload list \<Rightarrow> iridium \<Rightarrow> outcome" where
  "deliver [] s = ret s"
| "deliver (d # ds) s = and_then (on_data d s) (deliver ds)"

definition readSBD :: "byte list \<Rightarrow> iridium \<Rightarrow> outcome" where
  "readSBD chunk s = (case frame chunk s of (s', parts) \<Rightarrow> deliver parts s')"

text \<open>The framer alone over a sequence of chunks: the events it emits, in order.\<close>

fun frames :: "byte list list \<Rightarrow> iridium \<Rightarrow> iridium \<times> payload list" where
  "frames [] s = (s, [])"
| "frames (chunk # chunks) s =
     (case frame chunk s of (s', parts) \<Rightarrow>
        (case frames chunks s' of (s'', parts') \<Rightarrow> (s'', parts @ parts')))"

text \<open>The timer of \<^verbatim>\<open>enableBinaryMode\<close>, lines 256 to 262.\<close>

definition flush_binary :: "iridium \<Rightarrow> outcome" where
  "flush_binary s =
     (let n = bufferCounter (binary s);
          copied = take n (bin_buffer (binary s));
          ob = copied @ replicate (n - length copied) 0
      in if \<not> serialEmitter s then throw TypeError s
         else and_then (on_data (Blob ob) s)
                (\<lambda>s'. ret (s'\<lparr>binary := (binary s')\<lparr>bufferCounter := 0, mode := False\<rparr>\<rparr>)))"

section \<open>The session state machine\<close>

fun digit_char :: "nat \<Rightarrow> char" where
  "digit_char n = char_of (48 + n)"

fun dec :: "nat \<Rightarrow> string" where
  "dec n = (if n < 10 then [digit_char n] else dec (n div 10) @ [digit_char (n mod 10)])"

declare dec.simps [simp del]

fun message_length :: "message \<Rightarrow> nat" where
  "message_length (Buffer b) = length b"
| "message_length (Text t) = length t"

text \<open>
  Lines 223 to 252. An empty \<^verbatim>\<open>Buffer\<close> is a true value whose text is empty; the text of a
  non-empty one is outside the model.
\<close>

definition sendMessage :: "message \<Rightarrow> cont \<Rightarrow> int option \<Rightarrow> iridium \<Rightarrow> outcome" where
  "sendMessage message callback maxWait_arg s =
     (case message of
        Text t \<Rightarrow>
          AT (Cmd (if t \<noteq> [] then ''AT+SBDWT='' @ t else ''AT+SBDD0''))
            (Some OK) (Some ALL_re) (Text_written callback maxWait_arg) None s
      | Buffer b \<Rightarrow>
          (if b = []
           then AT (Cmd ''AT+SBDWT='') (Some OK) (Some ALL_re)
                  (Text_written callback maxWait_arg) None s
           else throw Not_modelled s))"

text \<open>
  Lines 162 to 220. \<^verbatim>\<open>Buffer.alloc\<close> of a string is a \<^verbatim>\<open>TypeError\<close>.
\<close>

definition sendBinaryMessage :: "message \<Rightarrow> cont \<Rightarrow> int option \<Rightarrow> iridium \<Rightarrow> outcome" where
  "sendBinaryMessage message callback maxWait_arg s =
     (if message_length message = 0 then sendMessage message callback maxWait_arg s
      else (case message of
        Text t \<Rightarrow> throw TypeError s
      | Buffer buffer_arg \<Rightarrow>
          AT (Cmd (''AT+SBDWB='' @ dec (length buffer_arg))) (Some (Includes ''READY''))
            (Some ALL_re) (Binary_ready (checksum_frame buffer_arg) callback) None s))"

fun incr :: "counter \<Rightarrow> counter" where
  "incr C_undefined = C_NaN"
| "incr C_NaN = C_NaN"
| "incr (C_num n) = C_num (n + 1)"

fun counter_le :: "counter \<Rightarrow> nat \<Rightarrow> bool" where
  "counter_le (C_num n) m = (n \<le> m)"
| "counter_le C_undefined m = False"
| "counter_le C_NaN m = False"

text \<open>Lines 132 to 160.\<close>

definition mailboxSend :: "message \<Rightarrow> cont \<Rightarrow> iridium \<Rightarrow> outcome" where
  "mailboxSend buffer_arg callback s =
     (let s1 = s\<lparr>c_attempt := incr (c_attempt s)\<rparr>
      in if counter_le (c_attempt s1) (maxAttempts (globals s1))
         then sendBinaryMessage buffer_arg (Mailbox_result buffer_arg callback) None
                (s1\<lparr>lock := 1\<rparr>)
         else emit
                (log [P_str ''[SBD] Failed to send. The maxAttempts of send requests has been reached.''] s1)
                (apply_cont callback
                   (E_object ''Failed to send. The maxAttempts of send requests has been reached.'')
                   R_undefined s1))"

text \<open>Lines 124 to 130.\<close>

definition mailboxCheck :: "iridium \<Rightarrow> outcome" where
  "mailboxCheck s =
     (if lock s \<noteq> 0 then ret (s\<lparr>pending := pending s + 1\<rparr>)
      else sendMessage (Text []) Undefined_fn None s)"

text \<open>
  Lines 113 to 122. \<^verbatim>\<open>Buffer.alloc(text, 'utf-8')\<close> takes its first argument as a size: for
  anything but a number (a string in particular) it is a \<^verbatim>\<open>TypeError\<close>, and for a size it
  is that many bytes filled with the text \<^verbatim>\<open>utf-8\<close> over and over. \<^verbatim>\<open>zlib\<close> answers later;
  \<open>compressed\<close> is the function it then calls, with its error and its output. For a number
  \<^verbatim>\<open>text.length\<close> is \<^verbatim>\<open>undefined\<close>.
\<close>

datatype jsarg = A_string string | A_size nat

definition alloc_filled :: "nat \<Rightarrow> byte list" where
  "alloc_filled n = take n (concat (replicate n (ascii ''utf-8'')))"

definition sendCompressedMessage :: "jsarg \<Rightarrow> cont \<Rightarrow> iridium \<Rightarrow> outcome" where
  "sendCompressedMessage text_arg callback s =
     (case text_arg of
        A_string t \<Rightarrow> throw TypeError s
      | A_size n \<Rightarrow> (s, [Deflate_raw (alloc_filled n)], None))"

fun length_part :: "jsarg \<Rightarrow> part" where
  "length_part (A_string t) = P_nat (length t)"
| "length_part (A_size n) = P_undefined"

definition compressed :: "jsarg \<Rightarrow> cont \<Rightarrow> errval \<Rightarrow> byte list \<Rightarrow> iridium \<Rightarrow> outcome" where
  "compressed text_arg callback err buffer_arg s =
     (if \<not> truthy err
      then emit (log [P_str ''Text compressed, initial length '', length_part text_arg,
                      P_str '', compressed length '', P_nat (length buffer_arg)] s)
             (mailboxSend (Buffer buffer_arg) callback (s\<lparr>c_attempt := C_num 0\<rparr>))
      else ret s)"

section \<open>Events\<close>

fun fire :: "task \<Rightarrow> iridium \<Rightarrow> outcome" where
  "fire (Retry buffer_arg callback) s = mailboxSend buffer_arg callback s"
| "fire Mailbox_check s = sendMessage (Text []) Undefined_fn None s"
| "fire Flush_binary s = flush_binary s"

text \<open>
  Everything that makes the driver run: bytes from the serial port, the command timer, another
  timer, the answer of \<^verbatim>\<open>zlib\<close>, and the calls of the public functions modelled here. The
  port is open, the emitter that \<^verbatim>\<open>readSBD\<close> receives is the port whose \<^verbatim>\<open>data\<close> events the
  handler of \<^verbatim>\<open>open\<close> listens to, and a function of the caller returns without calling back
  into the driver.
\<close>

datatype event =
    Serial "byte list"
  | Command_timer
  | Timer task
  | Call_mailboxSend message cont
  | Call_mailboxCheck
  | Call_sendMessage message cont "int option"
  | Call_sendBinaryMessage message cont "int option"
  | Call_getSignalQuality cont
  | Call_getSystemTime cont
  | Call_getNetworkTime cont
  | Call_sendCompressedMessage jsarg cont
  | Deflated jsarg cont errval "byte list"

fun step :: "event \<Rightarrow> iridium \<Rightarrow> outcome" where
  "step (Serial chunk) s = readSBD chunk s"
| "step Command_timer s = command_timer s"
| "step (Timer t) s = fire t s"
| "step (Call_mailboxSend buffer_arg callback) s = mailboxSend buffer_arg callback s"
| "step Call_mailboxCheck s = mailboxCheck s"
| "step (Call_sendMessage message callback maxWait_arg) s =
     sendMessage message callback maxWait_arg s"
| "step (Call_sendBinaryMessage message callback maxWait_arg) s =
     sendBinaryMessage message callback maxWait_arg s"
| "step (Call_getSignalQuality callback) s = getSignalQuality callback s"
| "step (Call_getSystemTime callback) s = getSystemTime callback s"
| "step (Call_getNetworkTime callback) s = getNetworkTime callback s"
| "step (Call_sendCompressedMessage text_arg callback) s =
     sendCompressedMessage text_arg callback s"
| "step (Deflated text_arg callback err buffer_arg) s =
     compressed text_arg callback err buffer_arg s"

text \<open>A run stops at the first uncaught exception.\<close>

fun run :: "event list \<Rightarrow> iridium \<Rightarrow> outcome" where
  "run [] s = ret s"
| "run (e # es) s = and_then (step e s) (run es)"


section \<open>Observations\<close>

fun is_write :: "action \<Rightarrow> bool" where
  "is_write (Write_string w) = True"
| "is_write (Write_bytes w) = True"
| "is_write (Debug m) = False"
| "is_write Emit_ringalert = False"
| "is_write (Emit_newmessage b q) = False"
| "is_write (Invoke n e r) = False"
| "is_write (Set_timeout d t) = False"
| "is_write (Deflate_raw b) = False"

fun is_invoke :: "action \<Rightarrow> bool" where
  "is_invoke (Invoke n e r) = True"
| "is_invoke (Write_string w) = False"
| "is_invoke (Write_bytes w) = False"
| "is_invoke (Debug m) = False"
| "is_invoke Emit_ringalert = False"
| "is_invoke (Emit_newmessage b q) = False"
| "is_invoke (Set_timeout d t) = False"
| "is_invoke (Deflate_raw b) = False"

text \<open>
  A send attempt is a call of \<^verbatim>\<open>sendBinaryMessage\<close> made by \<^verbatim>\<open>mailboxSend\<close>. An event starts
  one when it runs \<^verbatim>\<open>mailboxSend\<close> (called by the caller, by the retry timer or by the
  function that \<^verbatim>\<open>zlib\<close> answers to, which first sets the counter to 0) and the test of line
  134 passes. \<open>attempts\<close> counts them along a sequence of events; the count goes on after an
  exception, from the state the exception left (the count depends on that state only through
  \<^verbatim>\<open>c_attempt\<close> and \<^verbatim>\<open>maxAttempts\<close>, see \<open>attempts_counter_only\<close> below). It is not the
  number of SBDIX sessions: \<open>sessions\<close> counts those, as writes of \<^verbatim>\<open>AT+SBDIXA\<close>.
\<close>

fun launches :: "event \<Rightarrow> iridium \<Rightarrow> bool" where
  "launches (Call_mailboxSend buffer_arg callback) s =
     counter_le (incr (c_attempt s)) (maxAttempts (globals s))"
| "launches (Timer (Retry buffer_arg callback)) s =
     counter_le (incr (c_attempt s)) (maxAttempts (globals s))"
| "launches (Deflated text_arg callback err buffer_arg) s =
     (\<not> truthy err \<and> counter_le (incr (C_num 0)) (maxAttempts (globals s)))"
| "launches (Timer Mailbox_check) s = False"
| "launches (Timer Flush_binary) s = False"
| "launches (Serial chunk) s = False"
| "launches Command_timer s = False"
| "launches Call_mailboxCheck s = False"
| "launches (Call_sendMessage message callback maxWait_arg) s = False"
| "launches (Call_sendBinaryMessage message callback maxWait_arg) s = False"
| "launches (Call_getSignalQuality callback) s = False"
| "launches (Call_getSystemTime callback) s = False"
| "launches (Call_getNetworkTime callback) s = False"
| "launches (Call_sendCompressedMessage text_arg callback) s = False"

fun attempts :: "event list \<Rightarrow> iridium \<Rightarrow> nat" where
  "attempts [] s = 0"
| "attempts (e # es) s = (if launches e s then 1 else 0) + attempts es (fst (step e s))"

text \<open>The events that set \<^verbatim>\<open>c_attempt\<close> back to 0 (line 118).\<close>

fun is_reset :: "event \<Rightarrow> bool" where
  "is_reset (Deflated text_arg callback err buffer_arg) = (\<not> truthy err)"
| "is_reset (Serial chunk) = False"
| "is_reset Command_timer = False"
| "is_reset (Timer t) = False"
| "is_reset (Call_mailboxSend buffer_arg callback) = False"
| "is_reset Call_mailboxCheck = False"
| "is_reset (Call_sendMessage message callback maxWait_arg) = False"
| "is_reset (Call_sendBinaryMessage message callback maxWait_arg) = False"
| "is_reset (Call_getSignalQuality callback) = False"
| "is_reset (Call_getSystemTime callback) = False"
| "is_reset (Call_getNetworkTime callback) = False"
| "is_reset (Call_sendCompressedMessage text_arg callback) = False"

definition resets :: "event list \<Rightarrow> nat" where
  "resets es = length (filter is_reset es)"

text \<open>What an event does to \<^verbatim>\<open>c_attempt\<close>.\<close>

fun counter_after :: "event \<Rightarrow> counter \<Rightarrow> counter" where
  "counter_after (Call_mailboxSend buffer_arg callback) c = incr c"
| "counter_after (Timer (Retry buffer_arg callback)) c = incr c"
| "counter_after (Deflated text_arg callback err buffer_arg) c =
     (if \<not> truthy err then incr (C_num 0) else c)"
| "counter_after (Timer Mailbox_check) c = c"
| "counter_after (Timer Flush_binary) c = c"
| "counter_after (Serial chunk) c = c"
| "counter_after Command_timer c = c"
| "counter_after Call_mailboxCheck c = c"
| "counter_after (Call_sendMessage message callback maxWait_arg) c = c"
| "counter_after (Call_sendBinaryMessage message callback maxWait_arg) c = c"
| "counter_after (Call_getSignalQuality callback) c = c"
| "counter_after (Call_getSystemTime callback) c = c"
| "counter_after (Call_getNetworkTime callback) c = c"
| "counter_after (Call_sendCompressedMessage text_arg callback) c = c"

definition sessions :: "action list \<Rightarrow> nat" where
  "sessions as = length (filter (\<lambda>a. a = Write_string (''AT+SBDIXA'' @ [CR])) as)"

text \<open>
  The attempts the counter of line 133 still allows, and the relation between two states
  that agree on the configuration and on that counter.
\<close>

definition budget :: "iridium \<Rightarrow> nat" where
  "budget s = (case c_attempt s of C_num n \<Rightarrow> maxAttempts (globals s) - n
               | C_undefined \<Rightarrow> 0 | C_NaN \<Rightarrow> 0)"

definition kept :: "iridium \<Rightarrow> iridium \<Rightarrow> bool" where
  "kept s s' = (globals s' = globals s \<and> c_attempt s' = c_attempt s)"

text \<open>
  A run of one \<^verbatim>\<open>mailboxSend\<close> with \<^verbatim>\<open>maxAttempts\<close> configured as 1 and the counter at 0, as
  line 118 leaves it. While the message is on its way the application calls
  \<^verbatim>\<open>mailboxCheck\<close> (a ring alert came in), the session succeeds, and the mailbox check that
  line 141 then schedules runs up to its own session.
\<close>

definition pending_start :: iridium where
  "pending_start = initial\<lparr>c_attempt := C_num 0, globals := (globals initial)\<lparr>maxAttempts := 1\<rparr>\<rparr>"

definition pending_run :: "event list" where
  "pending_run = [Call_mailboxSend (Buffer [1]) (User 0), Call_mailboxCheck,
     Serial (ascii (''READY'' @ [CR, LF])), Serial (ascii (''OK'' @ [CR, LF])),
     Serial (ascii (''+CIEV:0,3'' @ [CR, LF])), Serial (ascii (''OK'' @ [CR, LF])),
     Serial (ascii (''+SBDIX: 0, 1, 0, 0, 0, 0'' @ [CR, LF] @ ''OK'' @ [CR, LF])),
     Serial (ascii (''OK'' @ [CR, LF])),
     Timer Mailbox_check, Serial (ascii (''OK'' @ [CR, LF])),
     Serial (ascii (''+CIEV:0,3'' @ [CR, LF])), Serial (ascii (''OK'' @ [CR, LF]))]"

section \<open>The line framer does not depend on chunk boundaries\<close>

lemma split_lf_not_Nil: "split_lf s \<noteq> []"
  by (induction s) (auto split: list.splits)

lemma split_lf_append:
  "split_lf (a @ b) = butlast (split_lf a) @ split_lf (last (split_lf a) @ b)"
proof (induction a)
  case Nil show ?case by simp
next
  case (Cons c a)
  show ?case
  proof (cases "c = LF")
    case True
    then show ?thesis using Cons split_lf_not_Nil[of a] by simp
  next
    case False
    obtain p ps where a: "split_lf a = p # ps"
      using split_lf_not_Nil[of a] by (cases "split_lf a") auto
    obtain q qs where ab: "split_lf (a @ b) = q # qs"
      using split_lf_not_Nil[of "a @ b"] by (cases "split_lf (a @ b)") auto
    show ?thesis
    proof (cases ps)
      case Nil
      with a ab Cons False show ?thesis by (simp split: list.splits)
    next
      case (Cons r rs)
      with a ab Cons.IH False show ?thesis by (auto split: list.splits)
    qed
  qed
qed

lemma split_lf_no_LF: "LF \<notin> set d \<Longrightarrow> split_lf d = [d]"
  by (induction d) auto

lemma split_lf_parts_no_LF: "p \<in> set (split_lf s) \<Longrightarrow> LF \<notin> set p"
proof (induction s arbitrary: p)
  case Nil then show ?case by simp
next
  case (Cons c s)
  obtain q qs where q: "split_lf s = q # qs"
    using split_lf_not_Nil[of s] by (cases "split_lf s") auto
  show ?case
  proof (cases "c = LF")
    case True with Cons show ?thesis by auto
  next
    case False
    with Cons.prems q have "p = c # q \<or> p \<in> set qs" by auto
    then show ?thesis using Cons.IH[of q] Cons.IH[of p] q False by auto
  qed
qed

lemma last_split_lf_no_LF: "LF \<notin> set (last (split_lf s))"
  using split_lf_parts_no_LF[of "last (split_lf s)" s] split_lf_not_Nil[of s] by simp

lemma latin1_append: "latin1 (a @ b) = latin1 a @ latin1 b"
  by (simp add: latin1_def)

lemma frame_text:
  "\<not> mode (binary s) \<Longrightarrow>
     snd (frame chunk s) = map Line (butlast (split_lf (data s @ latin1 chunk))) \<and>
     data (fst (frame chunk s)) = last (split_lf (data s @ latin1 chunk)) \<and>
     binary (fst (frame chunk s)) = binary s"
  by (simp add: frame_def Let_def)

text \<open>
  The fragment kept in \<^verbatim>\<open>iridium.data\<close> never holds a line feed: it is empty at the start and
  afterwards the last part of a split.
\<close>

lemma data_initial_no_LF: "LF \<notin> set (data initial)"
  by (simp add: initial_def)

lemma frame_data_no_LF: "LF \<notin> set (data s) \<Longrightarrow> LF \<notin> set (data (fst (frame chunk s)))"
  by (simp add: frame_def Let_def last_split_lf_no_LF)

lemma frames_text:
  "\<not> mode (binary s) \<Longrightarrow> LF \<notin> set (data s) \<Longrightarrow>
     snd (frames chunks s) = map Line (butlast (split_lf (data s @ latin1 (concat chunks)))) \<and>
     data (fst (frames chunks s)) = last (split_lf (data s @ latin1 (concat chunks)))"
proof (induction chunks arbitrary: s)
  case Nil
  then show ?case by (simp add: split_lf_no_LF latin1_def)
next
  case (Cons c cs)
  obtain s' ps where f: "frame c s = (s', ps)" by (cases "frame c s")
  have ft: "ps = map Line (butlast (split_lf (data s @ latin1 c)))"
    "data s' = last (split_lf (data s @ latin1 c))" "binary s' = binary s"
    using frame_text[OF Cons.prems(1), of c] f by simp_all
  have m: "\<not> mode (binary s')" using ft Cons.prems by simp
  have n: "LF \<notin> set (data s')" using ft last_split_lf_no_LF by simp
  note ih = Cons.IH[OF m n]
  obtain s'' qs where g: "frames cs s' = (s'', qs)" by (cases "frames cs s'")
  have sp: "split_lf (data s @ latin1 (concat (c # cs))) =
      butlast (split_lf (data s @ latin1 c)) @ split_lf (data s' @ latin1 (concat cs))"
    using split_lf_append[of "data s @ latin1 c" "latin1 (concat cs)"] ft
    by (simp add: latin1_append)
  show ?case
    using ih f g ft sp split_lf_not_Nil[of "data s' @ latin1 (concat cs)"]
    by (simp add: butlast_append)
qed

text \<open>
  C6. In text mode the lines the framer emits, and the fragment it keeps, depend only on the
  concatenation of the chunks received, not on where the chunk boundaries fall: the lines are
  the parts of the whole text between line feeds, in order, with carriage returns left in
  place, and the fragment is what follows the last line feed.
\<close>

theorem readSBD_chunking:
  "\<not> mode (binary s) \<Longrightarrow> LF \<notin> set (data s) \<Longrightarrow> concat chunks1 = concat chunks2 \<Longrightarrow>
     snd (frames chunks1 s) = snd (frames chunks2 s) \<and>
     data (fst (frames chunks1 s)) = data (fst (frames chunks2 s)) \<and>
     snd (frames chunks1 s) = map Line (butlast (split_lf (data s @ latin1 (concat chunks1)))) \<and>
     data (fst (frames chunks1 s)) = last (split_lf (data s @ latin1 (concat chunks1)))"
  using frames_text[of s chunks1] frames_text[of s chunks2] by simp

theorem readSBD_chunking_witness:
  "\<not> mode (binary initial) \<and> LF \<notin> set (data initial) \<and>
   concat [[0x4f, 0x4b], [0x0d, 0x0a, 0x52]] = concat [[0x4f :: byte], [0x4b, 0x0d], [0x0a], [0x52]] \<and>
   snd (frames [[0x4f, 0x4b], [0x0d, 0x0a, 0x52]] initial) = [Line (''OK'' @ [CR])] \<and>
   snd (frames [[0x4f], [0x4b, 0x0d], [0x0a], [0x52]] initial) = [Line (''OK'' @ [CR])] \<and>
   data (fst (frames [[0x4f], [0x4b, 0x0d], [0x0a], [0x52]] initial)) = ''R''"
proof -
  have h1: "\<not> mode (binary initial)" by (simp add: initial_def)
  have h2: "LF \<notin> set (data initial)" by (simp add: initial_def)
  have h3: "concat [[0x4f, 0x4b], [0x0d, 0x0a, 0x52]] = concat [[0x4f :: byte], [0x4b, 0x0d], [0x0a], [0x52]]"
    by simp
  have v1: "snd (frames [[0x4f, 0x4b], [0x0d, 0x0a, 0x52]] initial) = [Line (''OK'' @ [CR])]"
    by code_simp
  have v2: "data (fst (frames [[0x4f, 0x4b], [0x0d, 0x0a, 0x52]] initial)) = ''R''"
    by code_simp
  show ?thesis
    using readSBD_chunking[OF h1 h2 h3] h1 h2 h3 v1 v2 by simp
qed


section \<open>The checksum of \<^verbatim>\<open>sendBinaryMessage\<close>\<close>

lemma mask8: "(0xff :: 32 word) = mask 8"
  by (simp add: mask_eq_exp_minus_1)

lemma lo_word: "(ucast (to_int32 n AND 0xff) :: byte) = word_of_int n"
  unfolding to_int32_def mask8
  by (rule bit_word_eqI) (auto simp add: bit_simps bit_word_of_int_iff)

lemma hi_word:
  "(ucast (signed_drop_bit 8 (to_int32 n) AND 0xff) :: byte) = word_of_int (n div 256)"
proof -
  have d: "n div 256 = drop_bit 8 n" by (simp add: drop_bit_eq_div)
  show ?thesis
    unfolding to_int32_def mask8 d
    by (rule bit_word_eqI)
      (auto simp add: bit_simps bit_word_of_int_iff)
qed

lemma byte_sum_eq: "byte_sum b = int (sum_list (map unat b))"
proof -
  have "foldl (\<lambda>sum b. sum + uint b) a b = a + int (sum_list (map unat b))" for a
    by (induction b arbitrary: a) auto
  then show ?thesis by (simp add: byte_sum_def)
qed

lemma checksum_frame_bytes:
  "checksum_frame b =
     b @ [word_of_int (int (sum_list (map unat b)) div 256), word_of_int (int (sum_list (map unat b)))]"
  by (simp add: checksum_frame_def Let_def lo_word hi_word byte_sum_eq)

lemma div_mod_16: "(n::nat) div 256 mod 256 = n mod 65536 div 256"
proof -
  have "n mod 65536 = 256 * (n div 256 mod 256) + n mod 256"
    using mod_mult2_eq[of n 256 256] by simp
  then show ?thesis by simp
qed

lemma mod_mod_16: "(n::nat) mod 256 = n mod 65536 mod 256"
  by (simp add: mod_mod_cancel)

lemma unat_hi: "unat (word_of_int (int n div 256) :: byte) = (n mod 2 ^ 16) div 256"
proof -
  have "int n div 256 = int (n div 256)" by simp
  then have "unat (word_of_int (int n div 256) :: byte) = (n div 256) mod 256"
    by (simp only: of_int_of_nat_eq unat_of_nat) simp
  then show ?thesis by (simp add: div_mod_16)
qed

lemma unat_lo: "unat (word_of_int (int n) :: byte) = (n mod 2 ^ 16) mod 256"
proof -
  have "unat (word_of_int (int n) :: byte) = n mod 256"
    by (simp only: of_int_of_nat_eq unat_of_nat) simp
  then show ?thesis by (simp add: mod_mod_16[symmetric])
qed

text \<open>
  C3. For a non-empty byte payload, \<^verbatim>\<open>sendBinaryMessage\<close> keeps for the \<^verbatim>\<open>READY\<close> answer a
  buffer that is written to the modem as it is, and that buffer is the payload followed by
  two bytes: the sum of the payload bytes modulo \<open>2 ^ 16\<close>, high byte first.
\<close>

theorem sendBinaryMessage_checksum:
  "buffer_arg \<noteq> [] \<Longrightarrow>
     df (fst (sendBinaryMessage (Buffer buffer_arg) callback maxWait_arg s))
       = Some (Binary_ready (checksum_frame buffer_arg) callback) \<and>
     filter is_write (fst (snd (apply_cont (Binary_ready (checksum_frame buffer_arg) callback)
        E_null text s'))) = [Write_bytes (checksum_frame buffer_arg)] \<and>
     length (checksum_frame buffer_arg) = length buffer_arg + 2 \<and>
     take (length buffer_arg) (checksum_frame buffer_arg) = buffer_arg \<and>
     unat (checksum_frame buffer_arg ! length buffer_arg)
       = (sum_list (map unat buffer_arg) mod 2 ^ 16) div 256 \<and>
     unat (checksum_frame buffer_arg ! (length buffer_arg + 1))
       = (sum_list (map unat buffer_arg) mod 2 ^ 16) mod 256"
proof -
  assume ne: "buffer_arg \<noteq> []"
  have a: "df (fst (sendBinaryMessage (Buffer buffer_arg) callback maxWait_arg s))
       = Some (Binary_ready (checksum_frame buffer_arg) callback)"
    using ne by (simp add: sendBinaryMessage_def AT_def Let_def)
  have b: "filter is_write (fst (snd (apply_cont (Binary_ready (checksum_frame buffer_arg) callback)
        E_null text s'))) = [Write_bytes (checksum_frame buffer_arg)]"
    by (simp add: ATS_def AT_def Let_def log_def)
  have c: "length (checksum_frame buffer_arg) = length buffer_arg + 2"
    "take (length buffer_arg) (checksum_frame buffer_arg) = buffer_arg"
    by (simp_all only: checksum_frame_bytes) simp_all
  have d: "unat (checksum_frame buffer_arg ! length buffer_arg)
       = (sum_list (map unat buffer_arg) mod 2 ^ 16) div 256"
    using unat_hi[of "sum_list (map unat buffer_arg)"]
    by (simp only: checksum_frame_bytes nth_append_length)
  have e: "unat (checksum_frame buffer_arg ! (length buffer_arg + 1))
       = (sum_list (map unat buffer_arg) mod 2 ^ 16) mod 256"
    using unat_lo[of "sum_list (map unat buffer_arg)"]
    by (simp only: checksum_frame_bytes nth_append_length_plus) simp
  show ?thesis using a b c d e by simp
qed

theorem sendBinaryMessage_checksum_witness:
  "[1, 2, 3 :: byte] \<noteq> [] \<and>
   df (fst (sendBinaryMessage (Buffer [1, 2, 3]) (User 0) None initial))
     = Some (Binary_ready [1, 2, 3, 0, 6] (User 0)) \<and>
   filter is_write (fst (snd (apply_cont (Binary_ready [1, 2, 3, 0, 6] (User 0))
      E_null (R_string ''READY'') initial))) = [Write_bytes [1, 2, 3, 0, 6]] \<and>
   unat ([1, 2, 3, 0, 6 :: byte] ! 3) = (sum_list (map unat [1, 2, 3 :: byte]) mod 2 ^ 16) div 256 \<and>
   unat ([1, 2, 3, 0, 6 :: byte] ! 4) = (sum_list (map unat [1, 2, 3 :: byte]) mod 2 ^ 16) mod 256"
proof -
  have h: "[1, 2, 3 :: byte] \<noteq> []" by simp
  have v: "checksum_frame [1, 2, 3] = [1, 2, 3, 0, 6]" by code_simp
  show ?thesis
    using sendBinaryMessage_checksum[OF h, of "User 0" None initial "R_string ''READY''" initial] v
    by simp
qed

section \<open>The mailbox check\<close>

text \<open>
  C10. While the lock is set, \<^verbatim>\<open>mailboxCheck\<close> only adds one to \<^verbatim>\<open>pending\<close>: it writes
  nothing and issues no command. While the lock is clear it is \<^verbatim>\<open>sendMessage("")\<close>, which
  writes \<^verbatim>\<open>AT+SBDD0\<close>.
\<close>

theorem mailboxCheck_locked:
  "(lock s \<noteq> 0 \<longrightarrow> mailboxCheck s = (s\<lparr>pending := pending s + 1\<rparr>, [], None)) \<and>
   (lock s = 0 \<longrightarrow> mailboxCheck s = sendMessage (Text []) Undefined_fn None s \<and>
      filter is_write (fst (snd (mailboxCheck s))) = [Write_string (''AT+SBDD0'' @ [CR])])"
  by (simp add: mailboxCheck_def ret_def sendMessage_def AT_def Let_def log_def)

theorem mailboxCheck_locked_witness:
  "lock (initial\<lparr>lock := 1, pending := 2\<rparr>) \<noteq> 0 \<and>
   pending (fst (mailboxCheck (initial\<lparr>lock := 1, pending := 2\<rparr>))) = 3 \<and>
   fst (snd (mailboxCheck (initial\<lparr>lock := 1, pending := 2\<rparr>))) = [] \<and>
   lock initial = 0 \<and>
   fst (snd (mailboxCheck initial)) = [Write_string (''AT+SBDD0'' @ [CR])]"
  using mailboxCheck_locked[of "initial\<lparr>lock := 1, pending := 2\<rparr>"] mailboxCheck_locked[of initial]
  by (simp add: initial_def sendMessage_def AT_def Let_def log_def)

section \<open>The command timer\<close>

text \<open>
  C7, as the claim states it, fails for the timeout 0: line 580 replaces it by
  \<^verbatim>\<open>defaultTimeout\<close>, and the timer is armed.
\<close>

theorem AT_zero_timeout_counterexample:
  "tf (fst (AT (Cmd ''ATE0'') (Some OK) (Some ALL_re) (User 0) (Some 0) initial))
     = Some (Armed (Cmd ''ATE0'') 40000)"
  by (simp add: AT_def Let_def initial_def)

text \<open>
  C7, amended. A command issued with a negative timeout (such as the \<^verbatim>\<open>timeoutForever\<close>
  sentinel \<open>- 1\<close>) arms no timer: \<^verbatim>\<open>tf\<close> holds at most the handle of a timer that no
  longer runs, and the expiry function has nothing to do. A timeout of 0 is replaced by
  \<^verbatim>\<open>defaultTimeout\<close>, and a timer is armed when that is positive.
\<close>

theorem AT_negative_timeout:
  "(t < 0 \<longrightarrow>
      tf (fst (AT command endregexp keepregexp datafunction (Some t) s)) = clearTimeout (tf s) \<and>
      clearTimeout (tf s) \<noteq> Some (Armed c' t') \<and>
      command_timer (fst (AT command endregexp keepregexp datafunction (Some t) s))
        = ret (fst (AT command endregexp keepregexp datafunction (Some t) s))) \<and>
   tf (fst (AT command endregexp keepregexp datafunction (Some 0) s))
     = (if defaultTimeout (globals s) > 0
        then Some (Armed command (defaultTimeout (globals s))) else clearTimeout (tf s))"
  by (cases command; cases "tf s") (auto simp add: AT_def Let_def clearTimeout_def command_timer_def ret_def split: option.splits)

theorem AT_negative_timeout_witness:
  "(- 1 :: int) < 0 \<and>
   tf (fst (AT (Cmd ''AT+CIER=1,1,0'') (Some Signal_bar) (Some ALL_re) (User 0) (Some (- 1)) initial)) = None"
  using AT_negative_timeout[of "- 1" "Cmd ''AT+CIER=1,1,0''" "Some Signal_bar" "Some ALL_re" "User 0" initial]
  by (simp add: clearTimeout_def initial_def)

text \<open>
  C1. The function armed at line 581 only logs. At the input below the timer of a command
  sent with the timeout 2000 expires: nothing is called, \<^verbatim>\<open>df\<close> and \<^verbatim>\<open>er\<close> stay as the
  command set them, and the only change is that the timer has run.
\<close>

theorem command_timer_only_logs:
  "command_timer (fst (AT (Cmd ''ATE0'') (Some OK) (Some ALL_re) (User 0) (Some 2000) initial))
     = (fst (AT (Cmd ''ATE0'') (Some OK) (Some ALL_re) (User 0) (Some 2000) initial)\<lparr>tf := Some Spent\<rparr>, [], None) \<and>
   df (fst (command_timer (fst (AT (Cmd ''ATE0'') (Some OK) (Some ALL_re) (User 0) (Some 2000) initial))))
     = Some (User 0) \<and>
   er (fst (command_timer (fst (AT (Cmd ''ATE0'') (Some OK) (Some ALL_re) (User 0) (Some 2000) initial))))
     = Some OK \<and>
   fst (snd (run [Call_getSignalQuality (User 0), Command_timer] initial))
     = [Write_string (''AT+CSQ'' @ [CR])]"
  by (simp add: AT_def Let_def initial_def command_timer_def log_def getSignalQuality_def
      and_then_def emit_def ret_def)

text \<open>In every state the expiry calls nothing and leaves the command as it is.\<close>

lemma command_timer_no_completion:
  "filter is_invoke (fst (snd (command_timer s))) = [] \<and>
   df (fst (command_timer s)) = df s \<and> er (fst (command_timer s)) = er s \<and>
   buffer (fst (command_timer s)) = buffer s"
  by (simp add: command_timer_def ret_def log_def split: option.splits timer.splits)

section \<open>Parse failures of the modem queries\<close>







section \<open>The response router\<close>

lemma ring_alert_in_session_chunk: "snd (run [Call_sendMessage (Text ''hider'') (User 0) None,
        Serial (ascii (''OK'' @ [CR, LF])), Serial (ascii (''+CIEV:0,3'' @ [CR, LF])),
        Serial (ascii (''OK'' @ [CR, LF])),
        Serial (ascii (''+SBDIX: 1, 42, 1, 0, 0, 0'' @ [CR, LF] @ ''OK'' @ [CR, LF]
                       @ ''SBDRING'' @ [CR, LF]))] initial)
     = ([Write_string (''AT+SBDWT=hider'' @ [CR]), Write_string (''AT+CIER=1,1,0'' @ [CR]),
         Write_string (''AT+CIER=0,0,0'' @ [CR]), Write_string (''AT+SBDIXA'' @ [CR]),
         Set_timeout 1000 Flush_binary, Write_string (''AT+SBDRB'' @ [CR])],
        Some TypeError)"
  by code_simp

text \<open>
  C4, as the claim states it, fails while the command in flight has no end pattern (the
  binary read \<^verbatim>\<open>AT+SBDRB\<close> is sent with \<^verbatim>\<open>false\<close>): the test of line 308 comes first and
  hands the line to the command. First with \<^verbatim>\<open>AT\<close> called directly, where the caller's
  function receives the ring alert as the response. Then on the driver's own path: a text
  message is sent, the session reports an MT message, and the chunk that ends the session
  also holds a ring alert; it goes to the function waiting for the binary message, which
  fails on it with a \<^verbatim>\<open>TypeError\<close>, and no \<^verbatim>\<open>ringalert\<close> is emitted.
\<close>

theorem unsolicited_binary_counterexample:
  "df (fst (AT (Cmd ''AT+SBDRB'') None None (User 0) (Some 2000) initial)) = Some (User 0) \<and>
   test (Starts_with ''SBDRING'') (''SBDRING'' @ [CR]) \<and>
   fst (snd (on_data (Line (''SBDRING'' @ [CR]))
       (fst (AT (Cmd ''AT+SBDRB'') None None (User 0) (Some 2000) initial))))
     = [Invoke 0 E_null (R_string (''SBDRING'' @ [CR]))] \<and>
   snd (run [Call_sendMessage (Text ''hider'') (User 0) None,
        Serial (ascii (''OK'' @ [CR, LF])), Serial (ascii (''+CIEV:0,3'' @ [CR, LF])),
        Serial (ascii (''OK'' @ [CR, LF])),
        Serial (ascii (''+SBDIX: 1, 42, 1, 0, 0, 0'' @ [CR, LF] @ ''OK'' @ [CR, LF]
                       @ ''SBDRING'' @ [CR, LF]))] initial)
     = ([Write_string (''AT+SBDWT=hider'' @ [CR]), Write_string (''AT+CIER=1,1,0'' @ [CR]),
         Write_string (''AT+CIER=0,0,0'' @ [CR]), Write_string (''AT+SBDIXA'' @ [CR]),
         Set_timeout 1000 Flush_binary, Write_string (''AT+SBDRB'' @ [CR])],
        Some TypeError)"
  using ring_alert_in_session_chunk
  by (simp add: AT_def Let_def initial_def on_data_def call_df_def emit_def log_def)

text \<open>
  C4, amended. While an end pattern is set, a line that matches an unsolicited pattern is
  handled by the handler of the first such pattern and by nothing else, whatever the error
  and end patterns say about it: the state is unchanged (so nothing is appended to the body
  buffer) and no callback is called. While no end pattern is set and a command is in flight,
  whatever arrives is handed to the function of that command, and no unsolicited pattern is
  looked at.
\<close>

theorem unsolicited_first:
  "(er s = Some e \<and> find (\<lambda>u. test (fst u) l) unsollicited = Some u \<longrightarrow>
      on_data (Line l) s = emit (log [P_str ''< '', P_data (Line l)] s) (execute (snd u) l s) \<and>
      fst (on_data (Line l) s) = s \<and>
      filter is_invoke (fst (snd (on_data (Line l) s))) = []) \<and>
   (er s = None \<and> df s = Some k \<longrightarrow>
      on_data d s = emit (log [P_str ''< '', P_data d] s)
                      (apply_cont k E_null (res_of d) (s\<lparr>tf := clearTimeout (tf s)\<rparr>)))"
  by (cases "snd u")
    (auto simp add: on_data_def emit_def sbdring_def areg_def log_def throw_def call_df_def
      split: option.splits)

theorem unsolicited_first_witness:
  "er (fst (getSignalQuality (User 0) initial)) = Some OK \<and>
   find (\<lambda>u. test (fst u) (''SBDRING ERROR'' @ [CR])) unsollicited
     = Some (Starts_with ''SBDRING'', H_sbdring) \<and>
   test (Includes ''ERROR'') (''SBDRING ERROR'' @ [CR]) \<and>
   on_data (Line (''SBDRING ERROR'' @ [CR])) (fst (getSignalQuality (User 0) initial))
     = (fst (getSignalQuality (User 0) initial), [Emit_ringalert], None) \<and>
   er (fst (readBinaryMessage ''0'' (User 0) initial)) = None \<and>
   df (fst (readBinaryMessage ''0'' (User 0) initial)) = Some (Binary_read ''0'' (User 0)) \<and>
   snd (on_data (Line (''SBDRING'' @ [CR])) (fst (readBinaryMessage ''0'' (User 0) initial)))
     = ([], Some TypeError)"
proof -
  have h1: "er (fst (getSignalQuality (User 0) initial)) = Some OK"
    by (simp add: getSignalQuality_def AT_def Let_def)
  have h2: "find (\<lambda>u. test (fst u) (''SBDRING ERROR'' @ [CR])) unsollicited
     = Some (Starts_with ''SBDRING'', H_sbdring)"
    by (simp add: unsollicited_def)
  have d: "\<not> debug (globals (fst (getSignalQuality (User 0) initial)))"
    by (simp add: getSignalQuality_def AT_def Let_def initial_def)
  have h3: "er (fst (readBinaryMessage ''0'' (User 0) initial)) = None"
    "df (fst (readBinaryMessage ''0'' (User 0) initial)) = Some (Binary_read ''0'' (User 0))"
    "\<not> debug (globals (fst (readBinaryMessage ''0'' (User 0) initial)))"
    by (simp_all add: readBinaryMessage_def enableBinaryMode_def and_then_def emit_def AT_def
        Let_def initial_def)
  show ?thesis
    using unsolicited_first[of "fst (getSignalQuality (User 0) initial)" OK
        "''SBDRING ERROR'' @ [CR]" "(Starts_with ''SBDRING'', H_sbdring)"]
      unsolicited_first[of "fst (readBinaryMessage ''0'' (User 0) initial)" _ _ _
        "Binary_read ''0'' (User 0)" "Line (''SBDRING'' @ [CR])"]
      h1 h2 h3 d
    by (simp add: emit_def log_def sbdring_def throw_def)
qed

text \<open>
  C8. Completing a command leaves \<^verbatim>\<open>er\<close> and \<^verbatim>\<open>df\<close> as they were. In the first run below
  \<^verbatim>\<open>getSignalQuality\<close> has completed and a further \<^verbatim>\<open>OK\<close> line arrives: the callback is
  called a second time. In the second run a further \<^verbatim>\<open>+CIEV\<close> line stays in the body
  buffer. Before any command was sent, a line (here a ring alert) ends in a \<^verbatim>\<open>TypeError\<close>.
\<close>

theorem idle_line_reaches_last_command:
  "fst (snd (run [Call_getSignalQuality (User 0), Serial (ascii (''+CSQ:3'' @ [CR, LF])),
        Serial (ascii (''OK'' @ [CR, LF])), Serial (ascii (''OK'' @ [CR, LF]))] initial))
     = [Write_string (''AT+CSQ'' @ [CR]), Invoke 0 E_null (R_parseInt ''3''),
        Invoke 0 (E_string ''UNKNOWN_SIGNAL_QUALITY'') R_undefined] \<and>
   buffer (fst (run [Call_getSignalQuality (User 0), Serial (ascii (''+CSQ:3'' @ [CR, LF])),
        Serial (ascii (''OK'' @ [CR, LF])), Serial (ascii (''+CIEV:0,3'' @ [CR, LF]))] initial))
     = ''+CIEV:0,3'' @ [CR, LF] \<and>
   on_data (Line (''SBDRING'' @ [CR])) initial = (initial, [], Some TypeError)"
  by code_simp


section \<open>The outcome of an SBDIX session\<close>

lemma clearMOBuffers_effect:
  "messagePending (fst (clearMOBuffers k s)) = messagePending s \<and>
   df (fst (clearMOBuffers k s)) = Some k \<and>
   filter is_write (fst (snd (clearMOBuffers k s))) = [Write_string (''AT+SBDD0'' @ [CR])] \<and>
   filter is_invoke (fst (snd (clearMOBuffers k s))) = []"
  by (simp add: clearMOBuffers_def ATS_def AT_def Let_def log_def)

lemma readBinaryMessage_effect:
  "messagePending (fst (readBinaryMessage q k s)) = messagePending s \<and>
   filter is_invoke (fst (snd (readBinaryMessage q k s))) = []"
  by (simp add: readBinaryMessage_def enableBinaryMode_def and_then_def emit_def AT_def Let_def log_def)

lemma fst_emit: "fst (emit as out) = fst out"
  by (cases out) (simp add: emit_def)

lemma acts_emit: "fst (snd (emit as out)) = as @ fst (snd out)"
  by (cases out) (simp add: emit_def)

lemma filter_log_write: "filter is_write (log m s) = []"
  by (simp add: log_def)

lemma filter_log_invoke: "filter is_invoke (log m s) = []"
  by (simp add: log_def)

lemma call_df_Clear_then:
  "df s = Some (Clear_then x (User n)) \<Longrightarrow>
     fst (snd (call_df e r s)) = [Invoke n x R_undefined]"
  by (simp add: call_df_def)

text \<open>
  C2. When the response to \<^verbatim>\<open>AT+SBDIXA\<close> came without an error and holds a status line with
  the six fields, the closure of \<^verbatim>\<open>initiateSession\<close> disposes of the MO message by the
  first field. A status of at most 4 sets \<^verbatim>\<open>messagePending\<close> to 0 and calls nothing yet. Any
  other status writes \<^verbatim>\<open>AT+SBDD0\<close> (clear the MO buffer) and calls nothing yet; when that
  command completes, however it ends, the callback receives \<^verbatim>\<open>"radio failure"\<close> for status
  18, \<^verbatim>\<open>"network failure"\<close> for status 32 and \<^verbatim>\<open>"unknown failure"\<close> for every other one.
\<close>

theorem initiateSession_status:
  assumes m: "search sbdix_pattern text = Some [status, momsn, mtstatus, mtmsn, mtlen, mtqueued]"
    and e: "\<not> truthy err"
  shows "(js_number status \<le> 4 \<longrightarrow>
            messagePending (fst (apply_cont (Session_result (User n)) err (R_string text) s)) = 0 \<and>
            filter is_invoke (fst (snd (apply_cont (Session_result (User n)) err (R_string text) s))) = []) \<and>
         (js_number status > 4 \<longrightarrow>
            filter is_write (fst (snd (apply_cont (Session_result (User n)) err (R_string text) s)))
              = [Write_string (''AT+SBDD0'' @ [CR])] \<and>
            filter is_invoke (fst (snd (apply_cont (Session_result (User n)) err (R_string text) s))) = [] \<and>
            fst (snd (call_df e' r' (fst (apply_cont (Session_result (User n)) err (R_string text) s))))
              = [Invoke n (E_string (if js_number status = 18 then ''radio failure''
                                     else if js_number status = 32 then ''network failure''
                                     else ''unknown failure'')) R_undefined])"
proof (intro conjI impI)
  assume le: "js_number status \<le> 4"
  show "messagePending (fst (apply_cont (Session_result (User n)) err (R_string text) s)) = 0"
    using m e le
    by (simp add: Let_def fst_emit finishSession_def clearMOBuffers_effect readBinaryMessage_effect)
  show "filter is_invoke (fst (snd (apply_cont (Session_result (User n)) err (R_string text) s))) = []"
    using m e le
    by (simp add: Let_def acts_emit finishSession_def clearMOBuffers_effect readBinaryMessage_effect
        filter_log_invoke)
next
  assume gt: "js_number status > 4"
  show "filter is_write (fst (snd (apply_cont (Session_result (User n)) err (R_string text) s)))
      = [Write_string (''AT+SBDD0'' @ [CR])]"
    using m e gt
    by (simp add: Let_def acts_emit clearMOBuffers_effect filter_log_write)
  show "filter is_invoke (fst (snd (apply_cont (Session_result (User n)) err (R_string text) s))) = []"
    using m e gt
    by (simp add: Let_def acts_emit clearMOBuffers_effect filter_log_invoke)
  show "fst (snd (call_df e' r' (fst (apply_cont (Session_result (User n)) err (R_string text) s))))
      = [Invoke n (E_string (if js_number status = 18 then ''radio failure''
                             else if js_number status = 32 then ''network failure''
                             else ''unknown failure'')) R_undefined]"
    using m e gt
    by (simp add: Let_def fst_emit clearMOBuffers_effect call_df_Clear_then)
qed

theorem initiateSession_status_witness:
  "search sbdix_pattern (''+SBDIX: 18, 0, 0, 0, 0, 0'' @ [CR, LF])
     = Some [''18'', ''0'', ''0'', ''0'', ''0'', ''0''] \<and>
   \<not> truthy E_null \<and> js_number ''18'' > 4 \<and>
   fst (snd (call_df E_null (R_string (''OK'' @ [CR, LF]))
     (fst (apply_cont (Session_result (User 7)) E_null
        (R_string (''+SBDIX: 18, 0, 0, 0, 0, 0'' @ [CR, LF])) initial))))
     = [Invoke 7 (E_string ''radio failure'') R_undefined] \<and>
   search sbdix_pattern (''+SBDIX: 1, 42, 0, 0, 0, 0'' @ [CR, LF])
     = Some [''1'', ''42'', ''0'', ''0'', ''0'', ''0''] \<and>
   js_number ''1'' \<le> 4 \<and>
   messagePending (fst (apply_cont (Session_result (User 7)) E_null
        (R_string (''+SBDIX: 1, 42, 0, 0, 0, 0'' @ [CR, LF])) (initial\<lparr>messagePending := 2\<rparr>))) = 0"
proof -
  have m18: "search sbdix_pattern (''+SBDIX: 18, 0, 0, 0, 0, 0'' @ [CR, LF])
     = Some [''18'', ''0'', ''0'', ''0'', ''0'', ''0'']" by code_simp
  have m1: "search sbdix_pattern (''+SBDIX: 1, 42, 0, 0, 0, 0'' @ [CR, LF])
     = Some [''1'', ''42'', ''0'', ''0'', ''0'', ''0'']" by code_simp
  have e: "\<not> truthy E_null" by simp
  have j18: "js_number ''18'' = 18" by code_simp
  have j1: "js_number ''1'' = 1" by code_simp
  show ?thesis
    using initiateSession_status[OF m18 e, of 7 initial E_null "R_string (''OK'' @ [CR, LF])"]
      initiateSession_status[OF m1 e, of 7 "initial\<lparr>messagePending := 2\<rparr>" E_null R_undefined]
      m18 m1 j18 j1
    by simp
qed

section \<open>The retry bound of \<^verbatim>\<open>mailboxSend\<close>\<close>

lemma kept_refl: "kept s s"
  by (simp add: kept_def)

lemma and_then_kept:
  "kept s (fst out) \<Longrightarrow> (\<And>s'. kept s s' \<Longrightarrow> kept s (fst (f s'))) \<Longrightarrow> kept s (fst (and_then out f))"
  by (cases out) (auto simp add: and_then_def fst_emit split: option.splits)

lemma AT_kept: "kept s s' \<Longrightarrow> kept s (fst (AT c e k d t s'))"
  by (cases c) (simp_all add: AT_def Let_def kept_def)

lemma ATS_kept: "kept s s' \<Longrightarrow> kept s (fst (ATS c e k d t s'))"
  by (simp add: ATS_def AT_kept)

lemma upd_kept:
  "kept s s' \<Longrightarrow> kept s (s'\<lparr>messagePending := v\<rparr>)"
  "kept s s' \<Longrightarrow> kept s (s'\<lparr>lock := w\<rparr>)"
  "kept s s' \<Longrightarrow> kept s (s'\<lparr>pending := w\<rparr>)"
  "kept s s' \<Longrightarrow> kept s (s'\<lparr>binary := b\<rparr>)"
  "kept s s' \<Longrightarrow> kept s (s'\<lparr>buffer := x\<rparr>)"
  "kept s s' \<Longrightarrow> kept s (s'\<lparr>tf := y\<rparr>)"
  by (simp_all add: kept_def)

lemma commands_kept:
  "kept s s' \<Longrightarrow> kept s (fst (clearMOBuffers k s'))"
  "kept s s' \<Longrightarrow> kept s (fst (clearMTBuffers k s'))"
  "kept s s' \<Longrightarrow> kept s (fst (waitForNetwork k w s'))"
  "kept s s' \<Longrightarrow> kept s (fst (disableSignalMonitoring k s'))"
  "kept s s' \<Longrightarrow> kept s (fst (initiateSession k s'))"
  "kept s s' \<Longrightarrow> kept s (fst (finishSession k m s'))"
  "kept s s' \<Longrightarrow> kept s (fst (readBinaryMessage q k s'))"
  "kept s s' \<Longrightarrow> kept s (fst (getSystemTime k s'))"
  "kept s s' \<Longrightarrow> kept s (fst (getNetworkTime k s'))"
  "kept s s' \<Longrightarrow> kept s (fst (getSignalQuality k s'))"
  by (simp_all add: clearMOBuffers_def clearMTBuffers_def waitForNetwork_def
      disableSignalMonitoring_def initiateSession_def finishSession_def readBinaryMessage_def
      getSystemTime_def getNetworkTime_def getSignalQuality_def enableBinaryMode_def
      and_then_def fst_emit ATS_kept AT_kept upd_kept)

lemma throw_kept: "kept s s' \<Longrightarrow> kept s (fst (throw x s'))"
  by (simp add: throw_def)

lemma ret_kept: "kept s s' \<Longrightarrow> kept s (fst (ret s'))"
  by (simp add: ret_def)

lemma apply_cont_kept: "kept s0 s \<Longrightarrow> kept s0 (fst (apply_cont k err res s))"
proof (induction k err res s rule: apply_cont.induct)
  case (9 callback err body s)
  then show ?case
    by (simp add: Let_def fst_emit commands_kept upd_kept throw_kept split: resval.splits option.splits)
next
  case (11 mtqueued callback err buffer_arg s)
  then show ?case
    by (simp add: Let_def fst_emit commands_kept upd_kept throw_kept split: resval.splits)
next
  case (13 buffer_arg callback err momsn s)
  then show ?case
    by (simp add: Let_def fst_emit upd_kept)
qed (simp_all add: Let_def fst_emit commands_kept upd_kept throw_kept ATS_kept
      split: resval.splits option.splits)

lemma call_df_kept: "kept s0 s \<Longrightarrow> kept s0 (fst (call_df e r s))"
  by (simp add: call_df_def throw_kept apply_cont_kept upd_kept split: option.splits)

lemma execute_kept: "kept s0 s \<Longrightarrow> kept s0 (fst (execute h l s))"
  by (cases h) (simp_all add: sbdring_def areg_def throw_def split: option.splits)

lemma on_data_kept: "kept s0 s \<Longrightarrow> kept s0 (fst (on_data d s))"
  by (auto simp add: on_data_def fst_emit Let_def call_df_kept execute_kept throw_kept ret_kept upd_kept
      intro!: and_then_kept split: option.splits payload.splits)

lemma deliver_kept: "kept s0 s \<Longrightarrow> kept s0 (fst (deliver ds s))"
proof (induction ds arbitrary: s)
  case Nil then show ?case by (simp add: ret_def)
next
  case (Cons d ds)
  show ?case
    by (simp, rule and_then_kept) (simp_all add: on_data_kept Cons)
qed

lemma frame_kept: "kept s0 s \<Longrightarrow> kept s0 (fst (frame c s))"
  by (simp add: frame_def Let_def kept_def)

lemma readSBD_kept: "kept s0 s \<Longrightarrow> kept s0 (fst (readSBD c s))"
  using deliver_kept[of s0 "fst (frame c s)" "snd (frame c s)"] frame_kept[of s0 s c]
  by (cases "frame c s") (simp add: readSBD_def)

lemma flush_binary_kept: "kept s0 s \<Longrightarrow> kept s0 (fst (flush_binary s))"
  by (auto simp add: flush_binary_def Let_def throw_kept on_data_kept ret_kept upd_kept
      intro!: and_then_kept)

lemma command_timer_kept: "kept s0 s \<Longrightarrow> kept s0 (fst (command_timer s))"
  by (simp add: command_timer_def ret_def upd_kept split: option.splits timer.splits)

lemma sendMessage_kept: "kept s0 s \<Longrightarrow> kept s0 (fst (sendMessage m k w s))"
  by (simp add: sendMessage_def AT_kept throw_kept split: message.splits)

lemma sendBinaryMessage_kept: "kept s0 s \<Longrightarrow> kept s0 (fst (sendBinaryMessage m k w s))"
  by (simp add: sendBinaryMessage_def sendMessage_kept AT_kept throw_kept split: message.splits)

lemma mailboxCheck_kept: "kept s0 s \<Longrightarrow> kept s0 (fst (mailboxCheck s))"
  by (simp add: mailboxCheck_def ret_def sendMessage_kept upd_kept)

lemma mailboxSend_counts:
  "globals (fst (mailboxSend b k s)) = globals s \<and>
   c_attempt (fst (mailboxSend b k s)) = incr (c_attempt s)"
proof -
  have k: "kept (s\<lparr>c_attempt := incr (c_attempt s)\<rparr>) (fst (mailboxSend b k s))"
    by (simp add: mailboxSend_def Let_def fst_emit sendBinaryMessage_kept apply_cont_kept
        upd_kept kept_refl)
  then show ?thesis by (simp add: kept_def)
qed


lemma sendCompressedMessage_kept: "kept s0 s \<Longrightarrow> kept s0 (fst (sendCompressedMessage t k s))"
  by (simp add: sendCompressedMessage_def throw_kept split: jsarg.splits)

lemma compressed_counts:
  "globals (fst (compressed t k err b s)) = globals s \<and>
   c_attempt (fst (compressed t k err b s)) = (if \<not> truthy err then incr (C_num 0) else c_attempt s)"
  using mailboxSend_counts[of "Buffer b" k "s\<lparr>c_attempt := C_num 0\<rparr>"]
  by (simp add: compressed_def fst_emit ret_def)

lemma kept_fields: "kept s s' \<Longrightarrow> globals s' = globals s \<and> c_attempt s' = c_attempt s"
  by (simp add: kept_def)

lemmas step_kept_fields =
  kept_fields[OF readSBD_kept[OF kept_refl]]
  kept_fields[OF command_timer_kept[OF kept_refl]]
  kept_fields[OF flush_binary_kept[OF kept_refl]]
  kept_fields[OF mailboxCheck_kept[OF kept_refl]]
  kept_fields[OF sendMessage_kept[OF kept_refl]]
  kept_fields[OF sendBinaryMessage_kept[OF kept_refl]]
  kept_fields[OF sendCompressedMessage_kept[OF kept_refl]]
  kept_fields[OF commands_kept(8)[OF kept_refl]]
  kept_fields[OF commands_kept(9)[OF kept_refl]]
  kept_fields[OF commands_kept(10)[OF kept_refl]]

text \<open>
  No event changes the configuration, and what an event does to \<^verbatim>\<open>c_attempt\<close> depends on the
  event and on the counter alone.
\<close>

lemma step_counter:
  "globals (fst (step e s)) = globals s \<and>
   c_attempt (fst (step e s)) = counter_after e (c_attempt s)"
proof (cases e)
  case (Timer t)
  then show ?thesis
    by (cases t) (simp_all add: mailboxSend_counts step_kept_fields)
qed (simp_all add: mailboxSend_counts compressed_counts step_kept_fields)

lemma launches_kept:
  assumes "kept s s'"
  shows "launches e s' = launches e s"
proof (cases e)
  case (Timer t)
  then show ?thesis using assms by (cases t) (simp_all add: kept_def)
qed (use assms in \<open>simp_all add: kept_def\<close>)

lemma attempts_counter_only: "kept s s' \<Longrightarrow> attempts es s' = attempts es s"
proof (induction es arbitrary: s s')
  case Nil
  show ?case by simp
next
  case (Cons e es)
  have "kept (fst (step e s)) (fst (step e s'))"
    using Cons.prems step_counter[of e s] step_counter[of e s'] by (simp add: kept_def)
  then show ?case
    using Cons.IH launches_kept[OF Cons.prems, of e] by simp
qed

lemma counter_budget:
  "(case counter_after e (c_attempt s) of C_num n \<Rightarrow> maxAttempts (globals s) - n
     | C_undefined \<Rightarrow> 0 | C_NaN \<Rightarrow> 0) + (if launches e s then 1 else 0)
     \<le> (if is_reset e then maxAttempts (globals s) else budget s)"
proof (cases e)
  case (Timer t)
  then show ?thesis
    by (cases t; cases "c_attempt s") (auto simp add: budget_def)
next
  case (Call_mailboxSend m k)
  then show ?thesis
    by (cases "c_attempt s") (auto simp add: budget_def)
qed (auto simp add: budget_def split: counter.splits)

lemma step_budget:
  "budget (fst (step e s)) + (if launches e s then 1 else 0)
     \<le> (if is_reset e then maxAttempts (globals s) else budget s)"
proof -
  have "budget (fst (step e s))
      = (case counter_after e (c_attempt s) of C_num n \<Rightarrow> maxAttempts (globals s) - n
         | C_undefined \<Rightarrow> 0 | C_NaN \<Rightarrow> 0)"
    using step_counter[of e s] by (simp add: budget_def split: counter.splits)
  then show ?thesis
    using counter_budget[where e = e and s = s] by (simp only:)
qed

lemma attempts_budget:
  "attempts es s \<le> budget s + resets es * maxAttempts (globals s)"
proof (induction es arbitrary: s)
  case Nil
  show ?case by simp
next
  case (Cons e es)
  have g: "globals (fst (step e s)) = globals s" using step_counter[of e s] by simp
  have ih: "attempts es (fst (step e s))
      \<le> budget (fst (step e s)) + resets es * maxAttempts (globals s)"
    using Cons.IH[of "fst (step e s)"] g by simp
  show ?case
    using ih step_budget[of e s] by (cases "is_reset e") (simp_all add: resets_def)
qed

lemma budget_le: "budget s \<le> maxAttempts (globals s)"
  by (cases "c_attempt s") (simp_all add: budget_def)

lemma pending_run_actions:
  "snd (run pending_run pending_start)
     = ([Write_string (''AT+SBDWB=1'' @ [CR]), Write_bytes [1, 0, 1],
         Write_string (''AT+CIER=1,1,0'' @ [CR]), Write_string (''AT+CIER=0,0,0'' @ [CR]),
         Write_string (''AT+SBDIXA'' @ [CR]), Write_string (''AT+SBDD0'' @ [CR]),
         Set_timeout 1000 Mailbox_check, Invoke 0 E_false (R_string ''1''),
         Write_string (''AT+SBDD0'' @ [CR]), Write_string (''AT+CIER=1,1,0'' @ [CR]),
         Write_string (''AT+CIER=0,0,0'' @ [CR]), Write_string (''AT+SBDIXA'' @ [CR])],
        None)"
  by code_simp

lemma pending_run_attempts: "attempts pending_run pending_start = 1"
  by code_simp

text \<open>
  C5, as the claim states it, fails: the send attempts of one \<^verbatim>\<open>mailboxSend\<close> are bounded,
  the SBDIX sessions it leads to are not bounded by \<^verbatim>\<open>maxAttempts\<close>. In the run
  \<open>pending_run\<close>, with \<^verbatim>\<open>maxAttempts\<close> at 1, the one attempt succeeds while a message is
  pending, the callback is told so, and the mailbox check scheduled at line 141 writes
  \<^verbatim>\<open>AT+SBDIXA\<close> a second time.
\<close>

theorem mailboxSend_sessions_counterexample:
  "maxAttempts (globals pending_start) = 1 \<and>
   attempts pending_run pending_start = 1 \<and>
   sessions (fst (snd (run pending_run pending_start))) = 2 \<and>
   snd (run pending_run pending_start)
     = ([Write_string (''AT+SBDWB=1'' @ [CR]), Write_bytes [1, 0, 1],
         Write_string (''AT+CIER=1,1,0'' @ [CR]), Write_string (''AT+CIER=0,0,0'' @ [CR]),
         Write_string (''AT+SBDIXA'' @ [CR]), Write_string (''AT+SBDD0'' @ [CR]),
         Set_timeout 1000 Mailbox_check, Invoke 0 E_false (R_string ''1''),
         Write_string (''AT+SBDD0'' @ [CR]), Write_string (''AT+CIER=1,1,0'' @ [CR]),
         Write_string (''AT+CIER=0,0,0'' @ [CR]), Write_string (''AT+SBDIXA'' @ [CR])],
        None)"
  using pending_run_actions pending_run_attempts
  by (simp add: pending_start_def initial_def sessions_def)


text \<open>
  C5, amended. A send attempt is a call of \<^verbatim>\<open>mailboxSend\<close> (by the caller, by the retry
  timer, or where the compression of \<^verbatim>\<open>sendCompressedMessage\<close> completes) that goes on to
  \<^verbatim>\<open>sendBinaryMessage\<close>. Whatever the modem sends, whichever timers fire and whatever else is
  called, a sequence of events that does not reset \<^verbatim>\<open>c_attempt\<close> makes at most
  \<^verbatim>\<open>maxAttempts\<close> send attempts, and every reset (line 118) allows \<^verbatim>\<open>maxAttempts\<close> more. A
  call whose counter, after the increment, is not at most \<^verbatim>\<open>maxAttempts\<close> makes no attempt:
  it writes nothing, schedules nothing and calls its callback once, with the error object.
\<close>

theorem mailboxSend_attempts:
  "attempts es s \<le> (resets es + 1) * maxAttempts (globals s) \<and>
   (counter_le (incr (c_attempt s)) (maxAttempts (globals s)) \<longrightarrow>
      mailboxSend buffer_arg callback s
        = sendBinaryMessage buffer_arg (Mailbox_result buffer_arg callback) None
            (s\<lparr>c_attempt := incr (c_attempt s), lock := 1\<rparr>)) \<and>
   (\<not> counter_le (incr (c_attempt s)) (maxAttempts (globals s)) \<longrightarrow>
      mailboxSend buffer_arg (User n) s
        = (s\<lparr>c_attempt := incr (c_attempt s)\<rparr>,
           log [P_str ''[SBD] Failed to send. The maxAttempts of send requests has been reached.''] s
           @ [Invoke n (E_object ''Failed to send. The maxAttempts of send requests has been reached.'')
                R_undefined],
           None))"
proof -
  have "attempts es s \<le> maxAttempts (globals s) + resets es * maxAttempts (globals s)"
    using attempts_budget[of es s] budget_le[of s] by simp
  then show ?thesis
    by (simp add: mailboxSend_def Let_def emit_def log_def)
qed

theorem mailboxSend_attempts_witness:
  "counter_le (incr (c_attempt (initial\<lparr>c_attempt := C_num 0\<rparr>)))
     (maxAttempts (globals (initial\<lparr>c_attempt := C_num 0\<rparr>))) \<and>
   \<not> counter_le (incr (c_attempt (initial\<lparr>c_attempt := C_num 5\<rparr>)))
     (maxAttempts (globals (initial\<lparr>c_attempt := C_num 5\<rparr>))) \<and>
   resets (Deflated (A_size 3) (User 0) E_null [1] # replicate 6 (Timer (Retry (Buffer [1]) (User 0)))) = 1 \<and>
   attempts
     (Deflated (A_size 3) (User 0) E_null [1] # replicate 6 (Timer (Retry (Buffer [1]) (User 0))))
     (initial\<lparr>c_attempt := C_num 5\<rparr>) = 5 \<and>
   mailboxSend (Buffer [1]) (User 0) (initial\<lparr>c_attempt := C_num 5\<rparr>)
     = (initial\<lparr>c_attempt := C_num 6\<rparr>,
        [Invoke 0 (E_object ''Failed to send. The maxAttempts of send requests has been reached.'')
           R_undefined],
        None) \<and>
   snd (mailboxSend (Buffer [1]) (User 0) (initial\<lparr>c_attempt := C_num 0\<rparr>))
     = ([Write_string (''AT+SBDWB=1'' @ [CR])], None)"
proof -
  have w: "snd (sendBinaryMessage (Buffer [1]) (Mailbox_result (Buffer [1]) (User 0)) None
      (initial\<lparr>c_attempt := incr (c_attempt (initial\<lparr>c_attempt := C_num 0\<rparr>)), lock := 1\<rparr>))
     = ([Write_string (''AT+SBDWB=1'' @ [CR])], None)"
    by code_simp
  have a: "attempts
     (Deflated (A_size 3) (User 0) E_null [1] # replicate 6 (Timer (Retry (Buffer [1]) (User 0))))
     (initial\<lparr>c_attempt := C_num 5\<rparr>) = 5"
    by (simp add: initial_def compressed_def mailboxSend_def sendBinaryMessage_def AT_def Let_def
        log_def emit_def eval_nat_numeral)
  have r: "resets (Deflated (A_size 3) (User 0) E_null [1] # replicate 6 (Timer (Retry (Buffer [1]) (User 0)))) = 1"
    by (simp add: resets_def)
  show ?thesis
    using mailboxSend_attempts[of
        "Deflated (A_size 3) (User 0) E_null [1] # replicate 6 (Timer (Retry (Buffer [1]) (User 0)))"
        "initial\<lparr>c_attempt := C_num 5\<rparr>" "Buffer [1]" "User 0" 0]
      mailboxSend_attempts[of "[]" "initial\<lparr>c_attempt := C_num 0\<rparr>" "Buffer [1]" "User 0" 0]
      a r w
    by (simp add: initial_def log_def)
qed


end
